theory Spec2Isabelle
  imports Main
begin

section \<open>Data model of at1chatbot.py\<close>

text \<open>
  The support system keeps agents, clients and tickets as shared mutable objects: a ticket
  holds a reference to its client and to its assigned agent, and the registries map
  identifiers to the same objects. The model therefore has an explicit object store: a
  reference is a natural number, and each class has a store from references to records.
  The dataclass fields are read as initialised by keyword, the default factories being
  evaluated in the order of declaration.

  Times are integers: a \<open>datetime\<close> is a number of microseconds since a fixed instant, a
  \<open>timedelta\<close> a number of microseconds. Text is a \<open>string\<close> holding the UTF-8 bytes
  of the Python string.
\<close>

datatype PrioridadeTicket = BAIXA | MEDIA | ALTA | CRITICA

datatype StatusTicket =
  ABERTO | DESIGNADO | EM_ANDAMENTO | PAUSADO | AGUARDANDO_CLIENTE | RESOLVIDO | FECHADO

type_synonym datetime = int
type_synonym timedelta = int
type_synonym ref = nat

datatype erro = ZeroDivisionError | OverflowError

record Mensagem =
  mensagem_id :: string
  remetente_id :: string
  remetente_nome :: string
  conteudo :: string
  timestamp :: datetime
  is_sistema :: bool

record Agente =
  agente_id :: string
  agente_nome :: string
  agente_email :: string
  carga_trabalho :: int
  especializacoes :: "string set"
  disponivel :: bool
  ultimo_login :: datetime
  tickets_resolvidos :: int
  tempo_medio_resolucao :: timedelta

record Cliente =
  cliente_id :: string
  cliente_nome :: string
  cliente_email :: string
  tickets_abertos :: "string list"
  historico_interacoes :: "string list"

record Ticket =
  ticket_id :: string
  titulo :: string
  descricao :: string
  prioridade :: PrioridadeTicket
  status :: StatusTicket
  cliente :: ref
  criado_em :: datetime
  agente_designado :: "ref option"
  ultima_atualizacao :: datetime
  mensagens :: "Mensagem list"
  tags :: "string set"
  tempo_primeira_resposta :: "timedelta option"
  tempo_resolucao :: "timedelta option"
  satisfacao_cliente :: "int option"

text \<open>
  What the program reads from outside: the clock (\<open>datetime.now()\<close>), the identifier
  generator (\<open>uuid.uuid4()\<close>), the random generator behind \<open>random.choice\<close>, and
  Python's \<open>str.lower\<close>, a library function over Unicode text. Each is a parameter of the
  model; the state counts how many readings have been consumed.
\<close>

record mundo =
  relogio :: "nat \<Rightarrow> datetime"
  uuid4 :: "nat \<Rightarrow> string"
  sorteio :: "nat \<Rightarrow> nat"
  lower :: "string \<Rightarrow> string"

text \<open>
  The state: the three dictionaries and the bounded history of \<open>SistemaSuporte\<close>, the
  object stores, the next free reference for the objects the system itself creates, and
  the counters of the readings taken from the outside world. A dictionary is an
  association list in insertion order.
\<close>

record estado =
  agentes :: "(string \<times> ref) list"
  tickets :: "(string \<times> ref) list"
  clientes :: "(string \<times> ref) list"
  historico_global :: "Mensagem list"
  obj_agente :: "ref \<Rightarrow> Agente"
  obj_ticket :: "ref \<Rightarrow> Ticket"
  obj_cliente :: "ref \<Rightarrow> Cliente"
  prox_ticket :: ref
  prox_cliente :: ref
  relogio_lido :: nat
  uuids_gerados :: nat
  sorteios_feitos :: nat

section \<open>Python's dictionaries, strings and durations\<close>

fun dict_get :: "('k \<times> 'v) list \<Rightarrow> 'k \<Rightarrow> 'v option" where
  "dict_get [] k = None"
| "dict_get ((k', v) # d) k = (if k' = k then Some v else dict_get d k)"

text \<open>\<open>d[k] = v\<close>: an existing key keeps its place in the iteration order.\<close>

fun dict_set :: "('k \<times> 'v) list \<Rightarrow> 'k \<Rightarrow> 'v \<Rightarrow> ('k \<times> 'v) list" where
  "dict_set [] k v = [(k, v)]"
| "dict_set ((k', v') # d) k v = (if k' = k then (k, v) # d else (k', v') # dict_set d k v)"

definition dict_values :: "('k \<times> 'v) list \<Rightarrow> 'v list" where
  "dict_values d = map snd d"

fun comeca_com :: "string \<Rightarrow> string \<Rightarrow> bool" where
  "comeca_com [] t = True"
| "comeca_com (c # k) [] = False"
| "comeca_com (c # k) (d # t) = (c = d \<and> comeca_com k t)"

text \<open>\<open>k in t\<close> on strings: \<open>k\<close> occurs in \<open>t\<close> as a contiguous piece.\<close>

fun contem :: "string \<Rightarrow> string \<Rightarrow> bool" where
  "contem k [] = (k = [])"
| "contem k (d # t) = (comeca_com k (d # t) \<or> contem k t)"

text \<open>
  A \<open>timedelta\<close> holds at most 999999999 days in either direction; an operation whose
  result is outside raises \<open>OverflowError\<close>.
\<close>

definition td_min :: timedelta where
  "td_min = - 86399999913600000000"

definition td_max :: timedelta where
  "td_max = 86399999999999999999"

definition td_novo :: "int \<Rightarrow> erro + timedelta" where
  "td_novo us = (if td_min \<le> us \<and> us \<le> td_max then Inr us else Inl OverflowError)"

definition td_mul :: "timedelta \<Rightarrow> int \<Rightarrow> erro + timedelta" where
  "td_mul a k = td_novo (a * k)"

definition td_add :: "timedelta \<Rightarrow> timedelta \<Rightarrow> erro + timedelta" where
  "td_add a b = td_novo (a + b)"

text \<open>
  Division of a duration by an integer rounds to the nearest microsecond, a tie going to
  the even one (the library's \<open>_divide_and_round\<close>).
\<close>

definition divide_and_round :: "int \<Rightarrow> int \<Rightarrow> int" where
  "divide_and_round a b =
     (let q = a div b; r = (a mod b) * 2;
          greater_than_half = (if b > 0 then r > b else r < b)
      in if greater_than_half \<or> (r = b \<and> q mod 2 = 1) then q + 1 else q)"

definition td_div :: "timedelta \<Rightarrow> int \<Rightarrow> erro + timedelta" where
  "td_div a n = (if n = 0 then Inl ZeroDivisionError else td_novo (divide_and_round a n))"

text \<open>Truth value of an optional duration: \<open>None\<close> and the zero duration are false.\<close>

definition td_verdadeiro :: "timedelta option \<Rightarrow> bool" where
  "td_verdadeiro x = (case x of None \<Rightarrow> False | Some d \<Rightarrow> d \<noteq> 0)"

section \<open>Readings from the outside world\<close>

definition agora :: "mundo \<Rightarrow> estado \<Rightarrow> datetime \<times> estado" where
  "agora w s = (relogio w (relogio_lido s), s\<lparr>relogio_lido := Suc (relogio_lido s)\<rparr>)"

definition novo_uuid :: "mundo \<Rightarrow> estado \<Rightarrow> string \<times> estado" where
  "novo_uuid w s = (uuid4 w (uuids_gerados s), s\<lparr>uuids_gerados := Suc (uuids_gerados s)\<rparr>)"

text \<open>\<open>random.choice\<close> on a list that is not empty (every call of the program is such).\<close>

definition random_choice :: "mundo \<Rightarrow> 'a list \<Rightarrow> estado \<Rightarrow> 'a \<times> estado" where
  "random_choice w xs s =
     (xs ! (sorteio w (sorteios_feitos s) mod length xs),
      s\<lparr>sorteios_feitos := Suc (sorteios_feitos s)\<rparr>)"

section \<open>Priorities and classification\<close>

definition nome_prioridade :: "PrioridadeTicket \<Rightarrow> string" where
  "nome_prioridade p =
     (case p of BAIXA \<Rightarrow> ''BAIXA'' | MEDIA \<Rightarrow> ''MEDIA'' | ALTA \<Rightarrow> ''ALTA'' | CRITICA \<Rightarrow> ''CRITICA'')"

text \<open>\<open>prioridade.name.lower()\<close>: the names are ASCII capitals.\<close>

definition nome_minusculo :: "PrioridadeTicket \<Rightarrow> string" where
  "nome_minusculo p =
     (case p of BAIXA \<Rightarrow> ''baixa'' | MEDIA \<Rightarrow> ''media'' | ALTA \<Rightarrow> ''alta'' | CRITICA \<Rightarrow> ''critica'')"

definition valor_status :: "StatusTicket \<Rightarrow> string" where
  "valor_status st =
     (case st of ABERTO \<Rightarrow> ''aberto'' | DESIGNADO \<Rightarrow> ''designado''
      | EM_ANDAMENTO \<Rightarrow> ''em_andamento'' | PAUSADO \<Rightarrow> ''pausado''
      | AGUARDANDO_CLIENTE \<Rightarrow> ''aguardando_cliente'' | RESOLVIDO \<Rightarrow> ''resolvido''
      | FECHADO \<Rightarrow> ''fechado'')"

definition keywords_prioridade :: "(string \<times> PrioridadeTicket) list" where
  "keywords_prioridade =
     [(''cr'' @ [CHR 0xC3, CHR 0xAD] @ ''tico'', CRITICA),
      (''urgente'', CRITICA),
      (''emerg'' @ [CHR 0xC3, CHR 0xAA] @ ''ncia'', CRITICA),
      (''alto'', ALTA),
      (''importante'', ALTA),
      (''m'' @ [CHR 0xC3, CHR 0xA9] @ ''dio'', MEDIA),
      (''normal'', MEDIA),
      (''baixo'', BAIXA),
      (''rotina'', BAIXA)]"

fun primeira_keyword :: "(string \<times> PrioridadeTicket) list \<Rightarrow> string \<Rightarrow> PrioridadeTicket" where
  "primeira_keyword [] t = BAIXA"
| "primeira_keyword ((keyword, priority) # ks) t =
     (if contem keyword t then priority else primeira_keyword ks t)"

definition from_keywords :: "mundo \<Rightarrow> string \<Rightarrow> PrioridadeTicket" where
  "from_keywords w texto = primeira_keyword keywords_prioridade (lower w texto)"

definition palavras_chave :: "(string \<times> string list) list" where
  "palavras_chave =
     [(''problema'', [''erro'', ''bug'', ''falha'', ''problema'',
                      ''n'' @ [CHR 0xC3, CHR 0xA3] @ ''o funciona'']),
      (''urgencia'', [''urgente'', ''cr'' @ [CHR 0xC3, CHR 0xAD] @ ''tico'',
                      ''emerg'' @ [CHR 0xC3, CHR 0xAA] @ ''ncia'', ''imediato'']),
      (''ajuda'', [''ajuda'', ''suporte'', ''aux'' @ [CHR 0xC3, CHR 0xAD] @ ''lio'', ''como''])]"

definition classificar_mensagem :: "mundo \<Rightarrow> string \<Rightarrow> (string \<times> bool) list" where
  "classificar_mensagem w texto =
     (let texto_lower = lower w texto
      in map (\<lambda>(categoria, palavras). (categoria, list_ex (\<lambda>palavra. contem palavra texto_lower) palavras))
             palavras_chave)"

definition extrair_prioridade :: "mundo \<Rightarrow> string \<Rightarrow> PrioridadeTicket" where
  "extrair_prioridade w texto = from_keywords w texto"

text \<open>\<open>classificacao.get(k, False)\<close>.\<close>

definition get_bool :: "(string \<times> bool) list \<Rightarrow> string \<Rightarrow> bool" where
  "get_bool d k = (case dict_get d k of None \<Rightarrow> False | Some b \<Rightarrow> b)"

definition respostas_padrao :: "(string \<times> string list) list" where
  "respostas_padrao =
     [(''saudacao'',
        [''Ol'' @ [CHR 0xC3, CHR 0xA1] @ ''! Como posso ajudar voc'' @ [CHR 0xC3, CHR 0xAA] @ '' hoje?'',
         ''Bem-vindo ao nosso suporte! Em que posso auxiliar?'',
         ''Oi! Estou aqui para ajudar. Qual '' @ [CHR 0xC3, CHR 0xA9] @ '' a sua d''
           @ [CHR 0xC3, CHR 0xBA] @ ''vida?'']),
      (''despedida'',
        [''Obrigado por entrar em contato! Tenha um '' @ [CHR 0xC3, CHR 0xB3] @ ''timo dia!'',
         ''Foi um prazer ajudar! At'' @ [CHR 0xC3, CHR 0xA9] @ '' mais!'',
         ''Se precisar de mais alguma coisa, estamos '' @ [CHR 0xC3, CHR 0xA0] @ '' disposi''
           @ [CHR 0xC3, CHR 0xA7, CHR 0xC3, CHR 0xA3] @ ''o!'']),
      (''aguarde'',
        [''Por favor, aguarde um momento enquanto processo sua solicita''
           @ [CHR 0xC3, CHR 0xA7, CHR 0xC3, CHR 0xA3] @ ''o.'',
         ''Estou analisando sua quest'' @ [CHR 0xC3, CHR 0xA3] @ ''o, s'' @ [CHR 0xC3, CHR 0xB3]
           @ '' um instante.'',
         ''Aguarde um momento, j'' @ [CHR 0xC3, CHR 0xA1] @ '' estou verificando isso para voc''
           @ [CHR 0xC3, CHR 0xAA] @ ''.''])]"

definition nao_entendi :: string where
  "nao_entendi = ''Desculpe, n'' @ [CHR 0xC3, CHR 0xA3] @ ''o entendi.''"

definition get_resposta :: "mundo \<Rightarrow> string \<Rightarrow> estado \<Rightarrow> string \<times> estado" where
  "get_resposta w tipo s =
     random_choice w (case dict_get respostas_padrao tipo of None \<Rightarrow> [nao_entendi] | Some rs \<Rightarrow> rs) s"

definition sla_configs :: "PrioridadeTicket \<Rightarrow> timedelta" where
  "sla_configs p =
     (case p of CRITICA \<Rightarrow> 1 * 3600000000 | ALTA \<Rightarrow> 4 * 3600000000
      | MEDIA \<Rightarrow> 12 * 3600000000 | BAIXA \<Rightarrow> 24 * 3600000000)"

section \<open>Objects and messages\<close>

text \<open>Assignment to the fields of the object behind a reference.\<close>

definition muda_ticket :: "ref \<Rightarrow> (Ticket \<Rightarrow> Ticket) \<Rightarrow> estado \<Rightarrow> estado" where
  "muda_ticket r f s = s\<lparr>obj_ticket := (obj_ticket s)(r := f (obj_ticket s r))\<rparr>"

definition muda_agente :: "ref \<Rightarrow> (Agente \<Rightarrow> Agente) \<Rightarrow> estado \<Rightarrow> estado" where
  "muda_agente r f s = s\<lparr>obj_agente := (obj_agente s)(r := f (obj_agente s r))\<rparr>"

definition muda_cliente :: "ref \<Rightarrow> (Cliente \<Rightarrow> Cliente) \<Rightarrow> estado \<Rightarrow> estado" where
  "muda_cliente r f s = s\<lparr>obj_cliente := (obj_cliente s)(r := f (obj_cliente s r))\<rparr>"

text \<open>\<open>Mensagem(...)\<close>: the identifier is drawn first, then the timestamp is read.\<close>

definition nova_mensagem ::
  "mundo \<Rightarrow> string \<Rightarrow> string \<Rightarrow> string \<Rightarrow> bool \<Rightarrow> estado \<Rightarrow> Mensagem \<times> estado" where
  "nova_mensagem w rid rnome texto sistema s =
     (let (u, s1) = novo_uuid w s;
          (t, s2) = agora w s1
      in (\<lparr>mensagem_id = u, remetente_id = rid, remetente_nome = rnome, conteudo = texto,
           timestamp = t, is_sistema = sistema\<rparr>, s2))"

text \<open>\<open>Ticket.adicionar_mensagem\<close>, on the ticket object behind \<open>tr\<close>.\<close>

definition adicionar_mensagem :: "mundo \<Rightarrow> ref \<Rightarrow> Mensagem \<Rightarrow> estado \<Rightarrow> estado" where
  "adicionar_mensagem w tr mensagem s =
     (let s1 = muda_ticket tr (\<lambda>t. t\<lparr>mensagens := mensagens t @ [mensagem]\<rparr>) s;
          (t_agora, s2) = agora w s1
      in muda_ticket tr (\<lambda>t. t\<lparr>ultima_atualizacao := t_agora\<rparr>) s2)"

text \<open>\<open>Agente.adicionar_especializacao\<close>, on the agent object behind \<open>ar\<close>.\<close>

definition adicionar_especializacao :: "mundo \<Rightarrow> ref \<Rightarrow> string \<Rightarrow> estado \<Rightarrow> estado" where
  "adicionar_especializacao w ar especializacao s =
     muda_agente ar (\<lambda>a. a\<lparr>especializacoes := insert (lower w especializacao) (especializacoes a)\<rparr>) s"

text \<open>\<open>deque(maxlen=1000).append\<close>: a full history drops its oldest entry.\<close>

definition deque_append :: "'a list \<Rightarrow> 'a \<Rightarrow> 'a list" where
  "deque_append h x = (if length h \<ge> 1000 then tl h @ [x] else h @ [x])"

section \<open>SistemaSuporte\<close>

definition adicionar_agente :: "ref \<Rightarrow> estado \<Rightarrow> estado" where
  "adicionar_agente ar s = s\<lparr>agentes := dict_set (agentes s) (agente_id (obj_agente s ar)) ar\<rparr>"

definition registrar_cliente :: "mundo \<Rightarrow> string \<Rightarrow> string \<Rightarrow> estado \<Rightarrow> ref \<times> estado" where
  "registrar_cliente w nome email s =
     (let cr = prox_cliente s;
          (u, s1) = novo_uuid w s;
          s2 = s1\<lparr>prox_cliente := Suc cr,
                  obj_cliente := (obj_cliente s1)(cr :=
                    \<lparr>cliente_id = u, cliente_nome = nome, cliente_email = email,
                     tickets_abertos = [], historico_interacoes = []\<rparr>)\<rparr>
      in (cr, s2\<lparr>clientes := dict_set (clientes s2) u cr\<rparr>))"

text \<open>
  \<open>max(xs, key=f)\<close> on a list that is not empty: the running maximum is replaced only by
  a strictly greater key, so the first of several maxima is returned.
\<close>

fun max_key :: "('a \<Rightarrow> int) \<Rightarrow> 'a \<Rightarrow> 'a list \<Rightarrow> 'a" where
  "max_key f m [] = m"
| "max_key f m (x # xs) = (if f x > f m then max_key f x xs else max_key f m xs)"

text \<open>
  The closure \<open>pontuacao_agente\<close> of \<open>designar_ticket\<close>. The test
  \<open>agente in agentes_especializados\<close> compares dataclass instances field by field.
\<close>

definition pontuacao_agente :: "estado \<Rightarrow> ref list \<Rightarrow> ref \<Rightarrow> int" where
  "pontuacao_agente s agentes_especializados ar =
     (let agente = obj_agente s ar;
          pontos = 100 - (carga_trabalho agente * 20);
          pontos = (if list_ex (\<lambda>e. obj_agente s e = agente) agentes_especializados
                    then pontos + 50 else pontos)
      in pontos + tickets_resolvidos agente div 10)"

definition designar_ticket :: "mundo \<Rightarrow> ref \<Rightarrow> estado \<Rightarrow> ref option \<times> estado" where
  "designar_ticket w tr s =
     (let agentes_disponiveis =
            filter (\<lambda>ar. disponivel (obj_agente s ar) \<and> carga_trabalho (obj_agente s ar) < 5)
                   (dict_values (agentes s))
      in case agentes_disponiveis of
           [] \<Rightarrow> (None, s)
         | primeiro # resto \<Rightarrow>
            (let agentes_especializados =
                   filter (\<lambda>ar. nome_minusculo (prioridade (obj_ticket s tr))
                                  \<in> especializacoes (obj_agente s ar))
                          agentes_disponiveis;
                 agente_selecionado =
                   max_key (pontuacao_agente s agentes_especializados) primeiro resto;
                 s1 = muda_ticket tr (\<lambda>t. t\<lparr>agente_designado := Some agente_selecionado\<rparr>) s;
                 s2 = muda_ticket tr (\<lambda>t. t\<lparr>status := DESIGNADO\<rparr>) s1;
                 s3 = muda_agente agente_selecionado
                        (\<lambda>a. a\<lparr>carga_trabalho := carga_trabalho a + 1\<rparr>) s2;
                 s4 = (if \<not> td_verdadeiro (tempo_primeira_resposta (obj_ticket s3 tr))
                       then (let (t_agora, s') = agora w s3
                             in muda_ticket tr
                                  (\<lambda>t. t\<lparr>tempo_primeira_resposta := Some (t_agora - criado_em t)\<rparr>) s')
                       else s3);
                 (mensagem, s5) =
                   nova_mensagem w ''sistema'' ''Sistema''
                     (''Ticket designado para '' @ agente_nome (obj_agente s4 agente_selecionado))
                     True s4
             in (Some agente_selecionado, adicionar_mensagem w tr mensagem s5)))"

definition criar_ticket ::
  "mundo \<Rightarrow> ref \<Rightarrow> string \<Rightarrow> string \<Rightarrow> estado \<Rightarrow> ref \<times> estado" where
  "criar_ticket w cr tit descr s =
     (let prio = extrair_prioridade w descr;
          tr = prox_ticket s;
          (u, s1) = novo_uuid w s;
          (t_criado, s2) = agora w s1;
          (t_atual, s3) = agora w s2;
          s4 = s3\<lparr>prox_ticket := Suc tr,
                  obj_ticket := (obj_ticket s3)(tr :=
                    \<lparr>ticket_id = u, titulo = tit, descricao = descr, prioridade = prio,
                     status = ABERTO, cliente = cr, criado_em = t_criado,
                     agente_designado = None, ultima_atualizacao = t_atual, mensagens = [],
                     tags = {}, tempo_primeira_resposta = None, tempo_resolucao = None,
                     satisfacao_cliente = None\<rparr>)\<rparr>;
          (mensagem_sistema, s5) =
            nova_mensagem w ''sistema'' ''Sistema''
              (''Ticket criado com prioridade '' @ nome_prioridade prio) True s4;
          s6 = adicionar_mensagem w tr mensagem_sistema s5;
          s7 = s6\<lparr>tickets := dict_set (tickets s6) u tr\<rparr>;
          s8 = muda_cliente cr (\<lambda>c. c\<lparr>tickets_abertos := tickets_abertos c @ [u]\<rparr>) s7
      in (tr, snd (designar_ticket w tr s8)))"

definition nao_encontrado :: string where
  "nao_encontrado = ''Ticket n'' @ [CHR 0xC3, CHR 0xA3] @ ''o encontrado.''"

definition nao_autorizado :: string where
  "nao_autorizado = ''Remetente n'' @ [CHR 0xC3, CHR 0xA3] @ ''o autorizado.''"

definition aviso_sla :: string where
  "aviso_sla =
     [CHR 0xE2, CHR 0x9A, CHR 0xA0, CHR 0xEF, CHR 0xB8, CHR 0x8F] @ '' Aten''
     @ [CHR 0xC3, CHR 0xA7, CHR 0xC3, CHR 0xA3] @ ''o: Este ticket est'' @ [CHR 0xC3, CHR 0xA1]
     @ '' pr'' @ [CHR 0xC3, CHR 0xB3] @ ''ximo de ultrapassar o SLA!''"

text \<open>
  The sender of a message: the ticket's client, or else its assigned agent; with no
  assigned agent the second test is \<open>None\<close>, which counts as false.
\<close>

definition identificar_remetente :: "estado \<Rightarrow> ref \<Rightarrow> string \<Rightarrow> string option" where
  "identificar_remetente s tr rid =
     (let ticket = obj_ticket s tr
      in if rid = cliente_id (obj_cliente s (cliente ticket))
         then Some (cliente_nome (obj_cliente s (cliente ticket)))
         else (case agente_designado ticket of
                 None \<Rightarrow> None
               | Some ar \<Rightarrow> if rid = agente_id (obj_agente s ar)
                            then Some (agente_nome (obj_agente s ar)) else None))"

definition processar_mensagem ::
  "mundo \<Rightarrow> string \<Rightarrow> string \<Rightarrow> string \<Rightarrow> estado \<Rightarrow> string list \<times> estado" where
  "processar_mensagem w tid rid texto s =
     (case dict_get (tickets s) tid of
        None \<Rightarrow> ([nao_encontrado], s)
      | Some tr \<Rightarrow>
         (case identificar_remetente s tr rid of
            None \<Rightarrow> ([nao_autorizado], s)
          | Some rnome \<Rightarrow>
             (let (mensagem, s1) = nova_mensagem w rid rnome texto False s;
                  s2 = adicionar_mensagem w tr mensagem s1;
                  s3 = s2\<lparr>historico_global := deque_append (historico_global s2) mensagem\<rparr>;
                  classificacao = classificar_mensagem w texto;
                  (respostas1, s4) =
                    (if get_bool classificacao ''problema''
                     then (let (r, s') = get_resposta w ''problema'' s3 in ([r], s'))
                     else ([], s3));
                  nova_prioridade = extrair_prioridade w texto;
                  (respostas2, s5) =
                    (if get_bool classificacao ''urgencia''
                        \<and> nova_prioridade \<noteq> prioridade (obj_ticket s4 tr)
                     then (respostas1 @ [''Prioridade do ticket atualizada para ''
                                          @ nome_prioridade nova_prioridade],
                           muda_ticket tr (\<lambda>t. t\<lparr>prioridade := nova_prioridade\<rparr>) s4)
                     else (respostas1, s4));
                  (t_agora, s6) = agora w s5;
                  tempo_decorrido = t_agora - ultima_atualizacao (obj_ticket s6 tr)
              in (if tempo_decorrido > sla_configs (prioridade (obj_ticket s6 tr))
                  then respostas2 @ [aviso_sla] else respostas2, s6))))"

text \<open>
  \<open>atualizar_status_ticket\<close>. An exception of the duration arithmetic leaves the state as
  the statements before it made it; the result is then \<open>Inl\<close> with that state.
  The comment is optional, and the empty string counts as no comment.
\<close>

definition atualizar_status_ticket ::
  "mundo \<Rightarrow> string \<Rightarrow> StatusTicket \<Rightarrow> string option \<Rightarrow> estado
     \<Rightarrow> (erro \<times> estado) + (bool \<times> estado)" where
  "atualizar_status_ticket w tid novo_status comentario s =
     (case dict_get (tickets s) tid of
        None \<Rightarrow> Inr (False, s)
      | Some tr \<Rightarrow>
         (let s1 = muda_ticket tr (\<lambda>t. t\<lparr>status := novo_status\<rparr>) s;
              s2 = (case comentario of
                      None \<Rightarrow> s1
                    | Some c \<Rightarrow>
                       if c = [] then s1
                       else (let (mensagem, s') =
                                   nova_mensagem w ''sistema'' ''Sistema''
                                     (''Status atualizado para '' @ valor_status novo_status
                                        @ '': '' @ c) True s1
                             in adicionar_mensagem w tr mensagem s'))
          in if novo_status = RESOLVIDO
             then (case agente_designado (obj_ticket s2 tr) of
                     None \<Rightarrow> Inr (True, s2)
                   | Some ar \<Rightarrow>
                      (let s3 = muda_agente ar (\<lambda>a. a\<lparr>carga_trabalho := carga_trabalho a - 1\<rparr>) s2;
                           s4 = muda_agente ar
                                  (\<lambda>a. a\<lparr>tickets_resolvidos := tickets_resolvidos a + 1\<rparr>) s3;
                           (t_agora, s5) = agora w s4;
                           d = t_agora - criado_em (obj_ticket s5 tr);
                           s6 = muda_ticket tr (\<lambda>t. t\<lparr>tempo_resolucao := Some d\<rparr>) s5;
                           agente = obj_agente s6 ar
                       in if tickets_resolvidos agente = 1
                          then Inr (True, muda_agente ar (\<lambda>a. a\<lparr>tempo_medio_resolucao := d\<rparr>) s6)
                          else (case td_mul (tempo_medio_resolucao agente)
                                            (tickets_resolvidos agente - 1) of
                                  Inl e \<Rightarrow> Inl (e, s6)
                                | Inr total_ant \<Rightarrow>
                                   (case td_add total_ant d of
                                      Inl e \<Rightarrow> Inl (e, s6)
                                    | Inr soma \<Rightarrow>
                                       (case td_div soma (tickets_resolvidos agente) of
                                          Inl e \<Rightarrow> Inl (e, s6)
                                        | Inr media \<Rightarrow>
                                           Inr (True,
                                                muda_agente ar
                                                  (\<lambda>a. a\<lparr>tempo_medio_resolucao := media\<rparr>) s6))))))
             else Inr (True, s2)))"

text \<open>\<open>str(nota)\<close> for a score that passed the test \<open>1 <= nota <= 5\<close>: one digit.\<close>

definition str_nota :: "int \<Rightarrow> string" where
  "str_nota nota = [char_of (48 + nota)]"

definition avaliar_satisfacao ::
  "mundo \<Rightarrow> string \<Rightarrow> int \<Rightarrow> string option \<Rightarrow> estado \<Rightarrow> bool \<times> estado" where
  "avaliar_satisfacao w tid nota comentario s =
     (if \<not> (1 \<le> nota \<and> nota \<le> 5) then (False, s)
      else (case dict_get (tickets s) tid of
              None \<Rightarrow> (False, s)
            | Some tr \<Rightarrow>
               (let s1 = muda_ticket tr (\<lambda>t. t\<lparr>satisfacao_cliente := Some nota\<rparr>) s
                in (True,
                    case comentario of
                      None \<Rightarrow> s1
                    | Some c \<Rightarrow>
                       if c = [] then s1
                       else (let (mensagem, s') =
                                   nova_mensagem w ''sistema'' ''Sistema''
                                     (''Avalia'' @ [CHR 0xC3, CHR 0xA7, CHR 0xC3, CHR 0xA3]
                                        @ ''o do cliente: '' @ str_nota nota @ ''/5 - '' @ c)
                                     True s1
                             in adicionar_mensagem w tr mensagem s')))))"

text \<open>
  \<open>gerar_relatorio_desempenho\<close>. The entries \<open>taxa_resolucao\<close> and \<open>satisfacao_media\<close>
  of the report are floating-point numbers and are left out; the other entries are
  computed as the function computes them. The sum of the durations runs over the tickets
  whose \<open>tempo_resolucao\<close> is true, in the order of the dictionary.
\<close>

record relatorio =
  total_tickets :: nat
  rel_tickets_resolvidos :: nat
  rel_tempo_medio_resolucao :: timedelta
  agentes_mais_produtivos :: "ref list"

fun soma_tempos :: "timedelta \<Rightarrow> Ticket list \<Rightarrow> erro + timedelta" where
  "soma_tempos acc [] = Inr acc"
| "soma_tempos acc (ticket # ts) =
     (if td_verdadeiro (tempo_resolucao ticket)
      then (case td_add acc (the (tempo_resolucao ticket)) of
              Inl e \<Rightarrow> Inl e
            | Inr acc' \<Rightarrow> soma_tempos acc' ts)
      else soma_tempos acc ts)"

definition gerar_relatorio_desempenho :: "estado \<Rightarrow> erro + relatorio" where
  "gerar_relatorio_desempenho s =
     (let ts = map (obj_ticket s) (dict_values (tickets s));
          n_tickets = length ts;
          resolvidos = length (filter (\<lambda>t. status t = RESOLVIDO) ts)
      in case soma_tempos 0 ts of
           Inl e \<Rightarrow> Inl e
         | Inr soma \<Rightarrow>
            (case (if resolvidos \<noteq> 0 then td_div soma (int resolvidos) else Inr soma) of
               Inl e \<Rightarrow> Inl e
             | Inr media \<Rightarrow>
                Inr \<lparr>total_tickets = n_tickets, rel_tickets_resolvidos = resolvidos,
                     rel_tempo_medio_resolucao = media,
                     agentes_mais_produtivos =
                       take 3 (sort_key (\<lambda>ar. - tickets_resolvidos (obj_agente s ar))
                                        (dict_values (agentes s)))\<rparr>))"

text \<open>
  The priority of a ticket after a message has been classified: a message with an urgency
  word sets it to the priority read from the text.
\<close>

definition prioridade_final :: "mundo \<Rightarrow> string \<Rightarrow> PrioridadeTicket \<Rightarrow> PrioridadeTicket" where
  "prioridade_final w texto p =
     (if get_bool (classificar_mensagem w texto) ''urgencia'' then extrair_prioridade w texto else p)"

section \<open>Notions used in the statements\<close>

text \<open>
  The candidate list of \<open>designar_ticket\<close> (its \<open>agentes_disponiveis\<close>) and the agent it
  selects, as the function computes them.
\<close>

definition candidatos :: "estado \<Rightarrow> ref list" where
  "candidatos s =
     filter (\<lambda>ar. disponivel (obj_agente s ar) \<and> carga_trabalho (obj_agente s ar) < 5)
            (dict_values (agentes s))"

definition selecionado :: "estado \<Rightarrow> ref \<Rightarrow> ref" where
  "selecionado s tr =
     max_key (pontuacao_agente s
                (filter (\<lambda>ar. nome_minusculo (prioridade (obj_ticket s tr))
                                  \<in> especializacoes (obj_agente s ar)) (candidatos s)))
             (hd (candidatos s)) (tl (candidatos s))"

text \<open>
  The score as the specification words it: 100, minus 20 for each unit of workload, plus
  50 when the lower-case name of the ticket's priority is among the agent's
  specialisations, plus one tenth (rounded down) of the number of resolved tickets.
\<close>

definition pontuacao_spec :: "estado \<Rightarrow> ref \<Rightarrow> ref \<Rightarrow> int" where
  "pontuacao_spec s tr ar =
     100 - carga_trabalho (obj_agente s ar) * 20
     + (if nome_minusculo (prioridade (obj_ticket s tr)) \<in> especializacoes (obj_agente s ar)
        then 50 else 0)
     + tickets_resolvidos (obj_agente s ar) div 10"

text \<open>The state a call of \<open>atualizar_status_ticket\<close> leaves, exception or not.\<close>

definition estado_apos :: "(erro \<times> estado) + (bool \<times> estado) \<Rightarrow> estado" where
  "estado_apos r = (case r of Inl (e, s) \<Rightarrow> s | Inr (b, s) \<Rightarrow> s)"

definition comentario_presente :: "string option \<Rightarrow> bool" where
  "comentario_presente c = (case c of None \<Rightarrow> False | Some x \<Rightarrow> x \<noteq> [])"

text \<open>
  The running average of \<open>atualizar_status_ticket\<close> taken alone: the new average from the
  old one, the count \<open>n\<close> after the increment and the duration \<open>d\<close> of this resolution.
\<close>

definition media_incremental :: "timedelta \<Rightarrow> int \<Rightarrow> timedelta \<Rightarrow> erro + timedelta" where
  "media_incremental media n d =
     (if n = 1 then Inr d
      else (case td_mul media (n - 1) of
              Inl e \<Rightarrow> Inl e
            | Inr total_ant \<Rightarrow>
               (case td_add total_ant d of
                  Inl e \<Rightarrow> Inl e
                | Inr soma \<Rightarrow> td_div soma n)))"

text \<open>
  The state of \<open>atualizar_status_ticket\<close> after the status has been written and the
  optional comment recorded, before the resolution bookkeeping.
\<close>

definition apos_status ::
  "mundo \<Rightarrow> ref \<Rightarrow> StatusTicket \<Rightarrow> string option \<Rightarrow> estado \<Rightarrow> estado" where
  "apos_status w tr st c s =
     (if comentario_presente c
      then s\<lparr>obj_ticket := (obj_ticket s)(tr := (obj_ticket s tr)
               \<lparr>status := st,
                mensagens := mensagens (obj_ticket s tr) @
                  [\<lparr>mensagem_id = uuid4 w (uuids_gerados s), remetente_id = ''sistema'',
                    remetente_nome = ''Sistema'',
                    conteudo = ''Status atualizado para '' @ valor_status st @ '': '' @ the c,
                    timestamp = relogio w (relogio_lido s), is_sistema = True\<rparr>],
                ultima_atualizacao := relogio w (Suc (relogio_lido s))\<rparr>),
             uuids_gerados := Suc (uuids_gerados s),
             relogio_lido := Suc (Suc (relogio_lido s))\<rparr>
      else s\<lparr>obj_ticket := (obj_ticket s)(tr := (obj_ticket s tr)\<lparr>status := st\<rparr>)\<rparr>)"


text \<open>
  A caller that resolves tickets one after the other, without comment, and does not
  catch exceptions; and the durations these resolutions measure: the clock reading of
  each call minus the creation time of its ticket.
\<close>

fun resolver_em_sequencia :: "mundo \<Rightarrow> string list \<Rightarrow> estado \<Rightarrow> (erro \<times> estado) + estado" where
  "resolver_em_sequencia w [] s = Inr s"
| "resolver_em_sequencia w (tid # tids) s =
     (case atualizar_status_ticket w tid RESOLVIDO None s of
        Inl e \<Rightarrow> Inl e
      | Inr (ok, s') \<Rightarrow> resolver_em_sequencia w tids s')"

fun duracoes :: "mundo \<Rightarrow> estado \<Rightarrow> nat \<Rightarrow> string list \<Rightarrow> timedelta list" where
  "duracoes w s i [] = []"
| "duracoes w s i (tid # tids) =
     (case dict_get (tickets s) tid of
        None \<Rightarrow> duracoes w s i tids
      | Some tr \<Rightarrow>
         (relogio w (relogio_lido s + i) - criado_em (obj_ticket s tr)) # duracoes w s (Suc i) tids)"

text \<open>
  The running average and the count after a list of durations, each step as
  \<open>media_incremental\<close> computes it.
\<close>

fun medias_sucessivas :: "timedelta \<Rightarrow> int \<Rightarrow> timedelta list \<Rightarrow> erro + (timedelta \<times> int)" where
  "medias_sucessivas media k [] = Inr (media, k)"
| "medias_sucessivas media k (d # ds) =
     (case media_incremental media (k + 1) d of
        Inl e \<Rightarrow> Inl e
      | Inr m \<Rightarrow> medias_sucessivas m (k + 1) ds)"

text \<open>
  The state of \<open>criar_ticket\<close> once the ticket object exists, carries its first system
  message and is entered in the registry and in the client's list, before the automatic
  assignment.
\<close>

definition ticket_registrado ::
  "mundo \<Rightarrow> ref \<Rightarrow> string \<Rightarrow> string \<Rightarrow> estado \<Rightarrow> estado" where
  "ticket_registrado w cr tit descr s =
     s\<lparr>tickets := dict_set (tickets s) (uuid4 w (uuids_gerados s)) (prox_ticket s),
       obj_ticket := (obj_ticket s)(prox_ticket s :=
         \<lparr>ticket_id = uuid4 w (uuids_gerados s), titulo = tit, descricao = descr,
          prioridade = extrair_prioridade w descr, status = ABERTO, cliente = cr,
          criado_em = relogio w (relogio_lido s), agente_designado = None,
          ultima_atualizacao = relogio w (relogio_lido s + 3),
          mensagens =
            [\<lparr>mensagem_id = uuid4 w (Suc (uuids_gerados s)), remetente_id = ''sistema'',
              remetente_nome = ''Sistema'',
              conteudo = ''Ticket criado com prioridade ''
                           @ nome_prioridade (extrair_prioridade w descr),
              timestamp = relogio w (relogio_lido s + 2), is_sistema = True\<rparr>],
          tags = {}, tempo_primeira_resposta = None, tempo_resolucao = None,
          satisfacao_cliente = None\<rparr>),
       obj_cliente := (obj_cliente s)(cr := (obj_cliente s cr)
         \<lparr>tickets_abertos := tickets_abertos (obj_cliente s cr) @ [uuid4 w (uuids_gerados s)]\<rparr>),
       prox_ticket := Suc (prox_ticket s),
       relogio_lido := relogio_lido s + 4,
       uuids_gerados := Suc (Suc (uuids_gerados s))\<rparr>"

text \<open>
  Sequences of calls. A call is one method of the program with its arguments;
  \<open>executar\<close> runs a list of calls in order and returns the state they leave, the caller
  going on after an exception.
\<close>

datatype chamada =
    AdicionarAgente ref
  | AdicionarEspecializacao ref string
  | RegistrarCliente string string
  | CriarTicket ref string string
  | DesignarTicket ref
  | ProcessarMensagem string string string
  | AtualizarStatusTicket string StatusTicket "string option"
  | AvaliarSatisfacao string int "string option"

fun executar_chamada :: "mundo \<Rightarrow> chamada \<Rightarrow> estado \<Rightarrow> estado" where
  "executar_chamada w (AdicionarAgente ar) s = adicionar_agente ar s"
| "executar_chamada w (AdicionarEspecializacao ar e) s = adicionar_especializacao w ar e s"
| "executar_chamada w (RegistrarCliente nome email) s = snd (registrar_cliente w nome email s)"
| "executar_chamada w (CriarTicket cr tit descr) s = snd (criar_ticket w cr tit descr s)"
| "executar_chamada w (DesignarTicket tr) s = snd (designar_ticket w tr s)"
| "executar_chamada w (ProcessarMensagem tid rid texto) s =
     snd (processar_mensagem w tid rid texto s)"
| "executar_chamada w (AtualizarStatusTicket tid st c) s =
     estado_apos (atualizar_status_ticket w tid st c s)"
| "executar_chamada w (AvaliarSatisfacao tid nota c) s = snd (avaliar_satisfacao w tid nota c s)"

fun executar :: "mundo \<Rightarrow> chamada list \<Rightarrow> estado \<Rightarrow> estado" where
  "executar w [] s = s"
| "executar w (c # cs) s = executar w cs (executar_chamada w c s)"

text \<open>Every registered ticket without an assigned agent has no resolution time.\<close>

definition sem_agente_sem_resolucao :: "estado \<Rightarrow> bool" where
  "sem_agente_sem_resolucao s =
     (\<forall>(tid, tr) \<in> set (tickets s).
        agente_designado (obj_ticket s tr) = None \<longrightarrow> tempo_resolucao (obj_ticket s tr) = None)"

section \<open>Example worlds and states\<close>

text \<open>
  Lower case for ASCII text, which is what \<open>str.lower\<close> does on the texts of the
  examples below.
\<close>

definition lower_ascii :: "string \<Rightarrow> string" where
  "lower_ascii t =
     map (\<lambda>c. let n = (of_char c :: nat) in if 65 \<le> n \<and> n \<le> 90 then char_of (n + 32) else c) t"

text \<open>A world whose clock advances two hours between two readings.\<close>

definition mundo_exemplo :: mundo where
  "mundo_exemplo =
     \<lparr>relogio = (\<lambda>n. int n * 7200000000),
      uuid4 = (\<lambda>n. ''uuid-'' @ replicate n (CHR ''i'')),
      sorteio = (\<lambda>n. n),
      lower = lower_ascii\<rparr>"

definition joao :: Agente where
  "joao = \<lparr>agente_id = ''1'', agente_nome = ''Joao'', agente_email = ''joao@exemplo.com'',
           carga_trabalho = 0, especializacoes = {''alta''}, disponivel = True,
           ultimo_login = 0, tickets_resolvidos = 0, tempo_medio_resolucao = 0\<rparr>"

definition maria :: Agente where
  "maria = \<lparr>agente_id = ''2'', agente_nome = ''Maria'', agente_email = ''maria@exemplo.com'',
            carga_trabalho = 0, especializacoes = {''critica''}, disponivel = True,
            ultimo_login = 0, tickets_resolvidos = 0, tempo_medio_resolucao = 0\<rparr>"

definition jose :: Agente where
  "jose = \<lparr>agente_id = ''1'', agente_nome = ''Jose'', agente_email = ''jose@exemplo.com'',
           carga_trabalho = 0, especializacoes = {}, disponivel = True,
           ultimo_login = 0, tickets_resolvidos = 0, tempo_medio_resolucao = 0\<rparr>"

definition ana :: Cliente where
  "ana = \<lparr>cliente_id = ''c1'', cliente_nome = ''Ana'', cliente_email = ''ana@exemplo.com'',
          tickets_abertos = [''t1''], historico_interacoes = []\<rparr>"

definition ticket_exemplo :: Ticket where
  "ticket_exemplo =
     \<lparr>ticket_id = ''t1'', titulo = ''Sistema parado'', descricao = ''sistema urgente'',
      prioridade = CRITICA, status = ABERTO, cliente = 0, criado_em = 0,
      agente_designado = None, ultima_atualizacao = 0, mensagens = [], tags = {},
      tempo_primeira_resposta = None, tempo_resolucao = None, satisfacao_cliente = None\<rparr>"

text \<open>
  The empty system, before any call, with the objects the caller has constructed: agent
  objects \<open>joao\<close> (reference 0), \<open>jose\<close> (reference 2, with the identifier of \<open>joao\<close>)
  and \<open>maria\<close> (every other reference).
\<close>

definition estado_inicial :: estado where
  "estado_inicial =
     \<lparr>agentes = [], tickets = [], clientes = [], historico_global = [],
      obj_agente = (\<lambda>r. if r = 0 then joao else if r = 2 then jose else maria),
      obj_ticket = (\<lambda>r. ticket_exemplo),
      obj_cliente = (\<lambda>r. ana),
      prox_ticket = 0, prox_cliente = 0,
      relogio_lido = 0, uuids_gerados = 0, sorteios_feitos = 0\<rparr>"

text \<open>A system holding the ticket \<open>t1\<close> of client \<open>c1\<close> and no agent.\<close>

definition estado_um_ticket :: estado where
  "estado_um_ticket = estado_inicial\<lparr>tickets := [(''t1'', 0)], clientes := [(''c1'', 0)]\<rparr>"

text \<open>The same system with the two agents registered, \<open>joao\<close> first.\<close>

definition estado_dois_agentes :: estado where
  "estado_dois_agentes = estado_um_ticket\<lparr>agentes := [(''1'', 0), (''2'', 1)]\<rparr>"

text \<open>
  A run from the empty system: agent \<open>joao\<close> is registered, a client is registered, and
  the client opens a ticket, which is assigned to \<open>joao\<close> at once.
\<close>

definition chamadas_exemplo :: "chamada list" where
  "chamadas_exemplo =
     [AdicionarAgente 0, RegistrarCliente ''Ana'' ''ana@exemplo.com'',
      CriarTicket 0 ''Sistema parado'' ''sistema urgente'']"

definition estado_designado :: estado where
  "estado_designado = executar mundo_exemplo chamadas_exemplo estado_inicial"

text \<open>The same run followed by one call that resolves the ticket.\<close>

definition estado_resolvido :: estado where
  "estado_resolvido =
     executar mundo_exemplo [AtualizarStatusTicket ''uuid-i'' RESOLVIDO None] estado_designado"

text \<open>
  A world whose clock is coarse: the first seven readings, those of one \<open>criar_ticket\<close>
  call, give the same instant, and the later ones an instant five seconds after it.
\<close>

definition mundo_relogio_parado :: mundo where
  "mundo_relogio_parado = mundo_exemplo\<lparr>relogio := (\<lambda>n. if n < 7 then 0 else 5000000)\<rparr>"

text \<open>The same run followed by a call that closes the resolved ticket.\<close>

definition estado_fechado :: estado where
  "estado_fechado =
     executar mundo_exemplo [AtualizarStatusTicket ''uuid-i'' FECHADO None] estado_resolvido"


definition estado_tres_tickets :: estado where
  "estado_tres_tickets =
     estado_inicial
       \<lparr>agentes := [(''1'', 0)],
        tickets := [(''t1'', 0), (''t2'', 1), (''t3'', 2)],
        obj_ticket := (\<lambda>r. ticket_exemplo\<lparr>agente_designado := Some 0, status := DESIGNADO\<rparr>)\<rparr>"

text \<open>
  A clock in microseconds whose successive readings are 0, 1, 1, 2, 2, 3, 3, 4, ...
\<close>

definition mundo_microssegundos :: mundo where
  "mundo_microssegundos = mundo_exemplo\<lparr>relogio := (\<lambda>n. int ((n + 1) div 2))\<rparr>"

text \<open>
  A world in which the first reading of the clock is thirty days after instant 0 and
  each later reading one millisecond after the one before.
\<close>

definition mundo_trinta_dias :: mundo where
  "mundo_trinta_dias = mundo_exemplo\<lparr>relogio := (\<lambda>n. 2592000000000 + int n * 1000)\<rparr>"

section \<open>Building blocks\<close>

lemma nova_mensagem_eq:
  "nova_mensagem w rid rnome texto sis s =
     (\<lparr>mensagem_id = uuid4 w (uuids_gerados s), remetente_id = rid, remetente_nome = rnome,
       conteudo = texto, timestamp = relogio w (relogio_lido s), is_sistema = sis\<rparr>,
      s\<lparr>uuids_gerados := Suc (uuids_gerados s), relogio_lido := Suc (relogio_lido s)\<rparr>)"
  by (simp add: nova_mensagem_def novo_uuid_def agora_def)

lemma adicionar_mensagem_eq:
  "adicionar_mensagem w tr m s =
     s\<lparr>obj_ticket := (obj_ticket s)(tr := (obj_ticket s tr)
          \<lparr>mensagens := mensagens (obj_ticket s tr) @ [m],
           ultima_atualizacao := relogio w (relogio_lido s)\<rparr>),
       relogio_lido := Suc (relogio_lido s)\<rparr>"
  by (simp add: adicionar_mensagem_def agora_def muda_ticket_def)

lemma dict_get_set:
  "dict_get (dict_set d k v) k' = (if k' = k then Some v else dict_get d k')"
  by (induction d) auto

lemma chaves_dict_set:
  "map fst (dict_set d k v) = (if k \<in> fst ` set d then map fst d else map fst d @ [k])"
  by (induction d) (auto simp: image_iff, force+)

lemma dict_get_mem: "dict_get d k = Some v \<Longrightarrow> (k, v) \<in> set d"
  by (induction d) (auto split: if_splits)

lemma set_dict_set:
  "(k', v') \<in> set (dict_set d k v) \<Longrightarrow> (k', v') \<in> set d \<or> (k', v') = (k, v)"
  by (induction d) (auto split: if_splits)

section \<open>Messages: processar_mensagem\<close>

lemmas leituras_defs = agora_def novo_uuid_def nova_mensagem_def adicionar_mensagem_def
  muda_ticket_def muda_agente_def muda_cliente_def

lemma get_resposta_problema:
  "get_resposta w ''problema'' s = (nao_entendi, s\<lparr>sorteios_feitos := Suc (sorteios_feitos s)\<rparr>)"
  by (simp add: get_resposta_def respostas_padrao_def random_choice_def)

lemma nao_encontrado_distinto:
  "nao_encontrado \<noteq> nao_entendi"
  "nao_encontrado \<noteq> nao_autorizado"
  "nao_encontrado \<noteq> aviso_sla"
  "nao_encontrado \<noteq> ''Prioridade do ticket atualizada para '' @ x"
  by (simp_all add: nao_encontrado_def nao_entendi_def nao_autorizado_def aviso_sla_def)

lemma aviso_sla_distinto:
  "aviso_sla \<noteq> nao_entendi"
  "aviso_sla \<noteq> ''Prioridade do ticket atualizada para '' @ x"
  by (simp_all add: nao_entendi_def aviso_sla_def)

text \<open>
  The responses to a message of an authorised sender, in closed form. The clock is read
  three times: for the timestamp of the message, for \<open>ultima_atualizacao\<close> when the
  message is appended, and for the SLA check.
\<close>

lemma respostas_autorizado:
  assumes "dict_get (tickets s) tid = Some tr" "identificar_remetente s tr rid = Some rnome"
  shows "fst (processar_mensagem w tid rid texto s) =
     (if get_bool (classificar_mensagem w texto) ''problema'' then [nao_entendi] else [])
     @ (if get_bool (classificar_mensagem w texto) ''urgencia''
           \<and> extrair_prioridade w texto \<noteq> prioridade (obj_ticket s tr)
        then [''Prioridade do ticket atualizada para ''
                @ nome_prioridade (extrair_prioridade w texto)]
        else [])
     @ (if relogio w (relogio_lido s + 2) - relogio w (relogio_lido s + 1)
            > sla_configs (prioridade_final w texto (prioridade (obj_ticket s tr)))
        then [aviso_sla] else [])"
  using assms
  by (simp add: processar_mensagem_def Let_def case_prod_beta leituras_defs
        get_resposta_problema prioridade_final_def)

lemma ticket_apos_mensagem:
  assumes "dict_get (tickets s) tid = Some tr" "identificar_remetente s tr rid = Some rnome"
  shows "obj_ticket (snd (processar_mensagem w tid rid texto s)) tr =
     (obj_ticket s tr)
       \<lparr>mensagens := mensagens (obj_ticket s tr) @
          [\<lparr>mensagem_id = uuid4 w (uuids_gerados s), remetente_id = rid,
            remetente_nome = rnome, conteudo = texto,
            timestamp = relogio w (relogio_lido s), is_sistema = False\<rparr>],
        ultima_atualizacao := relogio w (relogio_lido s + 1),
        prioridade := prioridade_final w texto (prioridade (obj_ticket s tr))\<rparr>"
  using assms
  by (simp add: processar_mensagem_def Let_def case_prod_beta leituras_defs
        get_resposta_problema prioridade_final_def)

text \<open>
  What the check of the code compares. For an existing ticket and an authorised sender
  the message is appended, which writes \<open>ultima_atualizacao\<close>, and only then is the
  elapsed time taken: the clock reading of the check minus the value just written. The
  warning is returned exactly when that difference exceeds the budget of the ticket's
  priority after reclassification.
\<close>

lemma aviso_sla_entre_leituras:
  assumes "dict_get (tickets s) tid = Some tr"
    and "identificar_remetente s tr rid = Some rnome"
  shows "mensagens (obj_ticket (snd (processar_mensagem w tid rid texto s)) tr) =
           mensagens (obj_ticket s tr) @
             [\<lparr>mensagem_id = uuid4 w (uuids_gerados s), remetente_id = rid,
               remetente_nome = rnome, conteudo = texto,
               timestamp = relogio w (relogio_lido s), is_sistema = False\<rparr>]
         \<and> ultima_atualizacao (obj_ticket (snd (processar_mensagem w tid rid texto s)) tr)
             = relogio w (relogio_lido s + 1)
         \<and> (relogio w (relogio_lido s + 2) - relogio w (relogio_lido s + 1)
             > sla_configs (prioridade (obj_ticket (snd (processar_mensagem w tid rid texto s)) tr))
            \<longleftrightarrow> aviso_sla \<in> set (fst (processar_mensagem w tid rid texto s)))"
  unfolding ticket_apos_mensagem [OF assms] respostas_autorizado [OF assms]
  using aviso_sla_distinto by simp

text \<open>
  The value \<open>ultima_atualizacao\<close> had before the call plays no part in the responses: the
  append overwrites it before the check reads it.
\<close>

lemma respostas_independem_da_atualizacao_anterior:
  assumes "dict_get (tickets s) tid = Some tr"
    and "identificar_remetente s tr rid = Some rnome"
  shows "fst (processar_mensagem w tid rid texto
                (muda_ticket tr (\<lambda>t. t\<lparr>ultima_atualizacao := x\<rparr>) s))
         = fst (processar_mensagem w tid rid texto s)"
proof -
  let ?s = "muda_ticket tr (\<lambda>t. t\<lparr>ultima_atualizacao := x\<rparr>) s"
  have t: "dict_get (tickets ?s) tid = Some tr"
    using assms(1) by (simp add: muda_ticket_def)
  have "identificar_remetente ?s tr rid = identificar_remetente s tr rid"
    by (simp add: identificar_remetente_def muda_ticket_def Let_def split: option.split)
  with assms(2) have r: "identificar_remetente ?s tr rid = Some rnome" by simp
  show ?thesis
    unfolding respostas_autorizado [OF t r] respostas_autorizado [OF assms]
    by (simp add: muda_ticket_def)
qed

text \<open>
  The smallest budget is one hour, so no warning is returned unless the clock advances by
  more than an hour between the append and the check of one and the same call, however
  long the ticket has been left without an update.
\<close>

lemma sla_configs_minimo: "3600000000 \<le> sla_configs p"
  by (cases p) (simp_all add: sla_configs_def)

lemma aviso_sla_exige_salto_do_relogio:
  assumes "dict_get (tickets s) tid = Some tr"
    and "identificar_remetente s tr rid = Some rnome"
    and "relogio w (relogio_lido s + 2) - relogio w (relogio_lido s + 1) \<le> 3600000000"
  shows "aviso_sla \<notin> set (fst (processar_mensagem w tid rid texto s))"
proof -
  have "\<not> relogio w (relogio_lido s + 2) - relogio w (relogio_lido s + 1)
            > sla_configs (prioridade_final w texto (prioridade (obj_ticket s tr)))"
    using assms(3) sla_configs_minimo [of "prioridade_final w texto (prioridade (obj_ticket s tr))"]
    by linarith
  then show ?thesis
    unfolding respostas_autorizado [OF assms(1,2)]
    using aviso_sla_distinto by simp
qed

text \<open>
  C1 at a failing input. A ticket of priority \<open>CRITICA\<close> (budget one hour) was last updated
  at instant 0. Thirty days later its client sends a message; the clock advances one
  millisecond between two readings. The time elapsed since the ticket's
  \<open>ultima_atualizacao\<close> exceeds the budget of its priority, which the message does not
  change, and the message is appended; yet the list returned is empty: it holds no SLA
  warning. The append has overwritten \<open>ultima_atualizacao\<close> before the check under
  \<open>Verificar SLA\<close> reads it.
\<close>

theorem aviso_sla_ausente_apos_trinta_dias:
  "dict_get (tickets estado_um_ticket) ''t1'' = Some 0
   \<and> identificar_remetente estado_um_ticket 0 ''c1'' = Some ''Ana''
   \<and> prioridade (obj_ticket estado_um_ticket 0) = CRITICA
   \<and> ultima_atualizacao (obj_ticket estado_um_ticket 0) = 0
   \<and> sla_configs CRITICA
       < relogio mundo_trinta_dias (relogio_lido estado_um_ticket)
         - ultima_atualizacao (obj_ticket estado_um_ticket 0)
   \<and> fst (processar_mensagem mundo_trinta_dias ''t1'' ''c1'' ''bom dia'' estado_um_ticket) = []
   \<and> prioridade (obj_ticket (snd (processar_mensagem mundo_trinta_dias ''t1'' ''c1'' ''bom dia''
                                      estado_um_ticket)) 0) = CRITICA
   \<and> map conteudo
         (mensagens (obj_ticket (snd (processar_mensagem mundo_trinta_dias ''t1'' ''c1'' ''bom dia''
                                        estado_um_ticket)) 0)) = [''bom dia'']"
proof -
  have t: "dict_get (tickets estado_um_ticket) ''t1'' = Some 0"
    by (simp add: estado_um_ticket_def estado_inicial_def)
  have r: "identificar_remetente estado_um_ticket 0 ''c1'' = Some ''Ana''"
    by (simp add: identificar_remetente_def estado_um_ticket_def estado_inicial_def
          ticket_exemplo_def ana_def)
  have o: "obj_ticket estado_um_ticket 0 = ticket_exemplo"
    and n: "relogio_lido estado_um_ticket = 0"
    by (simp_all add: estado_um_ticket_def estado_inicial_def)
  have c: "classificar_mensagem mundo_trinta_dias ''bom dia''
             = [(''problema'', False), (''urgencia'', False), (''ajuda'', False)]"
    by (simp add: classificar_mensagem_def palavras_chave_def mundo_trinta_dias_def
          mundo_exemplo_def lower_ascii_def)
  have p: "prioridade_final mundo_trinta_dias ''bom dia'' CRITICA = CRITICA"
    by (simp add: prioridade_final_def get_bool_def c)
  have e: "sla_configs CRITICA
       < relogio mundo_trinta_dias (relogio_lido estado_um_ticket)
         - ultima_atualizacao (obj_ticket estado_um_ticket 0)"
    by (simp add: o n ticket_exemplo_def sla_configs_def mundo_trinta_dias_def)
  have k: "relogio mundo_trinta_dias 2 - relogio mundo_trinta_dias 1 = 1000"
    by (simp add: mundo_trinta_dias_def)
  have f: "fst (processar_mensagem mundo_trinta_dias ''t1'' ''c1'' ''bom dia'' estado_um_ticket) = []"
    unfolding respostas_autorizado [OF t r] n add_0 k
    by (simp add: get_bool_def c o ticket_exemplo_def p sla_configs_def)
  have q: "prioridade (obj_ticket (snd (processar_mensagem mundo_trinta_dias ''t1'' ''c1''
                                          ''bom dia'' estado_um_ticket)) 0) = CRITICA"
    by (simp add: ticket_apos_mensagem [OF t r] o p ticket_exemplo_def)
  have m: "map conteudo
         (mensagens (obj_ticket (snd (processar_mensagem mundo_trinta_dias ''t1'' ''c1'' ''bom dia''
                                        estado_um_ticket)) 0)) = [''bom dia'']"
    by (simp add: ticket_apos_mensagem [OF t r] o ticket_exemplo_def)
  from t r e f q m show ?thesis
    by (simp add: o ticket_exemplo_def)
qed

text \<open>
  C6. With a ticket identifier that is not in the registry, \<open>processar_mensagem\<close> returns
  the one-element list holding the not-found text and the state unchanged; a call on a
  ticket that is in the registry never returns that list.
\<close>

theorem processar_mensagem_ticket_inexistente:
  "(dict_get (tickets s) tid = None
      \<longrightarrow> processar_mensagem w tid rid texto s = ([nao_encontrado], s))
   \<and> (dict_get (tickets s) tid \<noteq> None
      \<longrightarrow> fst (processar_mensagem w tid rid texto s) \<noteq> [nao_encontrado])"
proof (intro conjI impI)
  assume "dict_get (tickets s) tid = None"
  then show "processar_mensagem w tid rid texto s = ([nao_encontrado], s)"
    by (simp add: processar_mensagem_def)
next
  assume "dict_get (tickets s) tid \<noteq> None"
  then obtain tr where t: "dict_get (tickets s) tid = Some tr" by auto
  show "fst (processar_mensagem w tid rid texto s) \<noteq> [nao_encontrado]"
  proof (cases "identificar_remetente s tr rid")
    case None
    with t show ?thesis
      using nao_encontrado_distinto(2) by (simp add: processar_mensagem_def)
  next
    case (Some rnome)
    show ?thesis
      unfolding respostas_autorizado [OF t Some]
      using nao_encontrado_distinto [symmetric] by (auto split: if_splits)
  qed
qed

theorem processar_mensagem_ticket_inexistente_witness:
  "dict_get (tickets estado_um_ticket) ''t9'' = None
   \<and> processar_mensagem mundo_exemplo ''t9'' ''c1'' ''bom dia'' estado_um_ticket
       = ([nao_encontrado], estado_um_ticket)
   \<and> dict_get (tickets estado_um_ticket) ''t1'' \<noteq> None
   \<and> fst (processar_mensagem mundo_exemplo ''t1'' ''c1'' ''bom dia'' estado_um_ticket)
       \<noteq> [nao_encontrado]"
proof -
  have a: "dict_get (tickets estado_um_ticket) ''t9'' = None"
    and b: "dict_get (tickets estado_um_ticket) ''t1'' \<noteq> None"
    by (simp_all add: estado_um_ticket_def estado_inicial_def)
  show ?thesis
    using a b
      processar_mensagem_ticket_inexistente
        [of estado_um_ticket "''t9''" mundo_exemplo "''c1''" "''bom dia''"]
      processar_mensagem_ticket_inexistente
        [of estado_um_ticket "''t1''" mundo_exemplo "''c1''" "''bom dia''"]
    by simp
qed

section \<open>Assignment: designar_ticket\<close>

lemma designar_ticket_sem_candidatos:
  "candidatos s = [] \<Longrightarrow> designar_ticket w tr s = (None, s)"
  by (simp add: designar_ticket_def candidatos_def)

lemma designar_ticket_fst:
  "candidatos s \<noteq> [] \<Longrightarrow> fst (designar_ticket w tr s) = Some (selecionado s tr)"
  by (cases "candidatos s")
     (simp_all add: designar_ticket_def candidatos_def [symmetric] selecionado_def Let_def case_prod_beta)


lemma designar_ticket_snd:
  assumes "candidatos s \<noteq> []"
  shows "snd (designar_ticket w tr s) =
     s\<lparr>obj_ticket := (obj_ticket s)(tr := (obj_ticket s tr)
          \<lparr>agente_designado := Some (selecionado s tr), status := DESIGNADO,
           tempo_primeira_resposta :=
             (if td_verdadeiro (tempo_primeira_resposta (obj_ticket s tr))
              then tempo_primeira_resposta (obj_ticket s tr)
              else Some (relogio w (relogio_lido s) - criado_em (obj_ticket s tr))),
           mensagens := mensagens (obj_ticket s tr) @
             [\<lparr>mensagem_id = uuid4 w (uuids_gerados s), remetente_id = ''sistema'',
               remetente_nome = ''Sistema'',
               conteudo = ''Ticket designado para ''
                            @ agente_nome (obj_agente s (selecionado s tr)),
               timestamp = relogio w (relogio_lido s
                 + (if td_verdadeiro (tempo_primeira_resposta (obj_ticket s tr)) then 0 else 1)),
               is_sistema = True\<rparr>],
           ultima_atualizacao := relogio w (relogio_lido s
                 + (if td_verdadeiro (tempo_primeira_resposta (obj_ticket s tr)) then 1 else 2))\<rparr>),
       obj_agente := (obj_agente s)(selecionado s tr := (obj_agente s (selecionado s tr))
          \<lparr>carga_trabalho := carga_trabalho (obj_agente s (selecionado s tr)) + 1\<rparr>),
       relogio_lido := relogio_lido s
                 + (if td_verdadeiro (tempo_primeira_resposta (obj_ticket s tr)) then 2 else 3),
       uuids_gerados := Suc (uuids_gerados s)\<rparr>"
proof (cases "candidatos s")
  case Nil
  with assms show ?thesis by simp
next
  case (Cons primeiro resto)
  then show ?thesis
    by (cases "td_verdadeiro (tempo_primeira_resposta (obj_ticket s tr))")
       (simp_all add: designar_ticket_def candidatos_def [symmetric] selecionado_def Let_def
          case_prod_beta nova_mensagem_eq adicionar_mensagem_eq muda_ticket_def muda_agente_def
          agora_def)
qed

lemma max_key_primeiro_maximo:
  "\<exists>antes depois. m # xs = antes @ max_key f m xs # depois
     \<and> (\<forall>c\<in>set antes. f c < f (max_key f m xs))
     \<and> (\<forall>c\<in>set depois. f c \<le> f (max_key f m xs))"
proof (induction xs arbitrary: m)
  case Nil
  have "[m] = [] @ max_key f m [] # []" by simp
  then show ?case by fastforce
next
  case (Cons x xs)
  show ?case
  proof (cases "f x > f m")
    case True
    then have k: "max_key f m (x # xs) = max_key f x xs" by simp
    from Cons.IH [of x] obtain antes depois where
      d: "x # xs = antes @ max_key f x xs # depois"
      and a: "\<forall>c\<in>set antes. f c < f (max_key f x xs)"
      and p: "\<forall>c\<in>set depois. f c \<le> f (max_key f x xs)" by blast
    have "f x \<le> f (max_key f x xs)"
    proof (cases antes)
      case Nil
      with d have "max_key f x xs = x" by (metis append_Nil list.inject)
      then show ?thesis by simp
    next
      case (Cons y ys)
      with d have "y = x" by (metis append_Cons list.inject)
      with a Cons show ?thesis by auto
    qed
    with True have m: "f m < f (max_key f x xs)" by simp
    have "m # x # xs = (m # antes) @ max_key f x xs # depois"
      using d by simp
    moreover have "\<forall>c\<in>set (m # antes). f c < f (max_key f x xs)"
      using a m by simp
    ultimately show ?thesis
      unfolding k using p by blast
  next
    case False
    then have k: "max_key f m (x # xs) = max_key f m xs" by simp
    from Cons.IH [of m] obtain antes depois where
      d: "m # xs = antes @ max_key f m xs # depois"
      and a: "\<forall>c\<in>set antes. f c < f (max_key f m xs)"
      and p: "\<forall>c\<in>set depois. f c \<le> f (max_key f m xs)" by blast
    show ?thesis
    proof (cases antes)
      case Nil
      with d have e: "max_key f m xs = m" and r: "depois = xs"
        by (metis append_Nil list.inject)+
      have "m # x # xs = [] @ max_key f m xs # (x # xs)"
        using e by simp
      moreover have "\<forall>c\<in>set (x # xs). f c \<le> f (max_key f m xs)"
        using p r e False by auto
      moreover have "\<forall>c\<in>set []. f c < f (max_key f m xs)" by simp
      ultimately show ?thesis
        unfolding k by blast
    next
      case (Cons y ys)
      with d have y: "y = m" and r: "xs = ys @ max_key f m xs # depois"
        by (metis append_Cons list.inject)+
      from a Cons y have "f m < f (max_key f m xs)" by simp
      with False have x: "f x < f (max_key f m xs)" by simp
      have "m # x # xs = (m # x # ys) @ max_key f m xs # depois"
        using r by simp
      moreover have "\<forall>c\<in>set (m # x # ys). f c < f (max_key f m xs)"
        using a Cons y x by simp
      ultimately show ?thesis
        unfolding k using p by blast
    qed
  qed
qed

lemma max_key_cong:
  "\<forall>x\<in>set (m # xs). f x = g x \<Longrightarrow> max_key f m xs = max_key g m xs"
  by (induction xs arbitrary: m) auto

lemma pontuacao_agente_spec:
  assumes "c \<in> set (candidatos s)"
  shows "pontuacao_agente s
           (filter (\<lambda>ar. nome_minusculo (prioridade (obj_ticket s tr))
                             \<in> especializacoes (obj_agente s ar)) (candidatos s)) c
         = pontuacao_spec s tr c"
proof -
  have "list_ex (\<lambda>e. obj_agente s e = obj_agente s c)
          (filter (\<lambda>ar. nome_minusculo (prioridade (obj_ticket s tr))
                             \<in> especializacoes (obj_agente s ar)) (candidatos s))
        \<longleftrightarrow> nome_minusculo (prioridade (obj_ticket s tr)) \<in> especializacoes (obj_agente s c)"
    using assms by (auto simp: list_ex_iff)
  then show ?thesis
    by (simp add: pontuacao_agente_def pontuacao_spec_def Let_def)
qed

lemma selecionado_spec:
  assumes "candidatos s \<noteq> []"
  shows "selecionado s tr = max_key (pontuacao_spec s tr) (hd (candidatos s)) (tl (candidatos s))"
  unfolding selecionado_def
  using assms by (intro max_key_cong) (simp add: pontuacao_agente_spec)

text \<open>
  C5. When the candidate list (the registered agents that are available and have a
  workload below 5, in the order of the registry) is not empty, \<open>designar_ticket\<close> returns
  a candidate whose score, as the specification words it, is the greatest; every
  candidate before it in the list has a strictly smaller score, so the first of several
  maxima is taken. The ticket then refers to that agent, its status is \<open>DESIGNADO\<close>, and
  the agent's workload is one more than before.
\<close>

theorem designar_ticket_maior_pontuacao:
  assumes "candidatos s \<noteq> []"
  shows "\<exists>sel antes depois.
           fst (designar_ticket w tr s) = Some sel
         \<and> candidatos s = antes @ sel # depois
         \<and> (\<forall>c\<in>set antes. pontuacao_spec s tr c < pontuacao_spec s tr sel)
         \<and> (\<forall>c\<in>set depois. pontuacao_spec s tr c \<le> pontuacao_spec s tr sel)
         \<and> agente_designado (obj_ticket (snd (designar_ticket w tr s)) tr) = Some sel
         \<and> status (obj_ticket (snd (designar_ticket w tr s)) tr) = DESIGNADO
         \<and> carga_trabalho (obj_agente (snd (designar_ticket w tr s)) sel)
             = carga_trabalho (obj_agente s sel) + 1"
proof -
  from max_key_primeiro_maximo [of "hd (candidatos s)" "tl (candidatos s)" "pontuacao_spec s tr"]
  obtain antes depois where
    d: "hd (candidatos s) # tl (candidatos s) = antes @ selecionado s tr # depois"
    and a: "\<forall>c\<in>set antes. pontuacao_spec s tr c < pontuacao_spec s tr (selecionado s tr)"
    and p: "\<forall>c\<in>set depois. pontuacao_spec s tr c \<le> pontuacao_spec s tr (selecionado s tr)"
    unfolding selecionado_spec [OF assms] by blast
  from d assms have d': "candidatos s = antes @ selecionado s tr # depois" by simp
  show ?thesis
    using a p d'
    by (intro exI [of _ "selecionado s tr"] exI [of _ antes] exI [of _ depois])
       (simp add: designar_ticket_fst [OF assms] designar_ticket_snd [OF assms])
qed

theorem designar_ticket_maior_pontuacao_witness:
  "candidatos estado_dois_agentes \<noteq> []
   \<and> (\<exists>sel antes depois.
           fst (designar_ticket mundo_exemplo 0 estado_dois_agentes) = Some sel
         \<and> candidatos estado_dois_agentes = antes @ sel # depois
         \<and> (\<forall>c\<in>set antes. pontuacao_spec estado_dois_agentes 0 c
                              < pontuacao_spec estado_dois_agentes 0 sel)
         \<and> (\<forall>c\<in>set depois. pontuacao_spec estado_dois_agentes 0 c
                              \<le> pontuacao_spec estado_dois_agentes 0 sel)
         \<and> agente_designado
               (obj_ticket (snd (designar_ticket mundo_exemplo 0 estado_dois_agentes)) 0) = Some sel
         \<and> status (obj_ticket (snd (designar_ticket mundo_exemplo 0 estado_dois_agentes)) 0)
               = DESIGNADO
         \<and> carga_trabalho (obj_agente (snd (designar_ticket mundo_exemplo 0 estado_dois_agentes)) sel)
               = carga_trabalho (obj_agente estado_dois_agentes sel) + 1)"
proof -
  have h: "candidatos estado_dois_agentes \<noteq> []"
    by (simp add: candidatos_def estado_dois_agentes_def estado_um_ticket_def estado_inicial_def
          dict_values_def joao_def maria_def)
  from h designar_ticket_maior_pontuacao [OF h, of mundo_exemplo 0] show ?thesis
    by (rule conjI)
qed

lemma designar_ticket_exemplo:
  "fst (designar_ticket mundo_exemplo 0 estado_dois_agentes) = Some 1"
proof -
  have c: "candidatos estado_dois_agentes = [0, 1]"
    by (simp add: candidatos_def estado_dois_agentes_def estado_um_ticket_def estado_inicial_def
          dict_values_def joao_def maria_def)
  then have h: "candidatos estado_dois_agentes \<noteq> []" by simp
  show ?thesis
    unfolding designar_ticket_fst [OF h] selecionado_spec [OF h] c
    by (simp add: pontuacao_spec_def estado_dois_agentes_def estado_um_ticket_def
          estado_inicial_def joao_def maria_def ticket_exemplo_def nome_minusculo_def)
qed

section \<open>Status changes: atualizar_status_ticket\<close>

lemma atualizar_status_inexistente:
  "dict_get (tickets s) tid = None \<Longrightarrow> atualizar_status_ticket w tid st c s = Inr (False, s)"
  by (simp add: atualizar_status_ticket_def)

lemma atualizar_status_sem_resolucao:
  assumes "dict_get (tickets s) tid = Some tr"
    and "st \<noteq> RESOLVIDO \<or> agente_designado (obj_ticket s tr) = None"
  shows "atualizar_status_ticket w tid st c s = Inr (True, apos_status w tr st c s)"
  using assms
  by (cases c)
     (auto simp add: atualizar_status_ticket_def apos_status_def comentario_presente_def Let_def
        nova_mensagem_eq adicionar_mensagem_eq muda_ticket_def)

lemma atualizar_status_resolvido:
  assumes "dict_get (tickets s) tid = Some tr"
    and "agente_designado (obj_ticket s tr) = Some ar"
  shows "atualizar_status_ticket w tid RESOLVIDO c s =
     (let s2 = apos_status w tr RESOLVIDO c s;
          d = relogio w (relogio_lido s2) - criado_em (obj_ticket s tr);
          a = obj_agente s ar;
          s6 = s2\<lparr>obj_agente := (obj_agente s)(ar := a
                    \<lparr>carga_trabalho := carga_trabalho a - 1,
                     tickets_resolvidos := tickets_resolvidos a + 1\<rparr>),
                  relogio_lido := Suc (relogio_lido s2),
                  obj_ticket := (obj_ticket s2)(tr := (obj_ticket s2 tr)\<lparr>tempo_resolucao := Some d\<rparr>)\<rparr>
      in case media_incremental (tempo_medio_resolucao a) (tickets_resolvidos a + 1) d of
           Inl e \<Rightarrow> Inl (e, s6)
         | Inr media \<Rightarrow>
            Inr (True, s6\<lparr>obj_agente := (obj_agente s6)(ar := (obj_agente s6 ar)
                              \<lparr>tempo_medio_resolucao := media\<rparr>)\<rparr>))"
  using assms
  by (cases c)
     (simp_all add: atualizar_status_ticket_def apos_status_def comentario_presente_def Let_def
        nova_mensagem_eq adicionar_mensagem_eq muda_ticket_def muda_agente_def agora_def
        media_incremental_def split: sum.split)


section \<open>What the calls leave unchanged\<close>

lemma designar_ticket_quadro:
  "tickets (snd (designar_ticket w tr s)) = tickets s"
  "tempo_resolucao (obj_ticket (snd (designar_ticket w tr s)) r) = tempo_resolucao (obj_ticket s r)"
  "agente_designado (obj_ticket (snd (designar_ticket w tr s)) r) = None
     \<Longrightarrow> agente_designado (obj_ticket s r) = None"
proof -
  show "tickets (snd (designar_ticket w tr s)) = tickets s"
    by (cases "candidatos s = []")
       (simp_all add: designar_ticket_sem_candidatos designar_ticket_snd)
  show "tempo_resolucao (obj_ticket (snd (designar_ticket w tr s)) r) = tempo_resolucao (obj_ticket s r)"
    by (cases "candidatos s = []")
       (simp_all add: designar_ticket_sem_candidatos designar_ticket_snd)
  show "agente_designado (obj_ticket (snd (designar_ticket w tr s)) r) = None
     \<Longrightarrow> agente_designado (obj_ticket s r) = None"
    by (cases "candidatos s = []")
       (simp_all add: designar_ticket_sem_candidatos designar_ticket_snd split: if_splits)
qed

lemma processar_mensagem_quadro:
  "tickets (snd (processar_mensagem w tid rid texto s)) = tickets s"
  "tempo_resolucao (obj_ticket (snd (processar_mensagem w tid rid texto s)) r) = tempo_resolucao (obj_ticket s r)"
  "agente_designado (obj_ticket (snd (processar_mensagem w tid rid texto s)) r) = agente_designado (obj_ticket s r)"
proof -
  have "tickets (snd (processar_mensagem w tid rid texto s)) = tickets s
      \<and> tempo_resolucao (obj_ticket (snd (processar_mensagem w tid rid texto s)) r) = tempo_resolucao (obj_ticket s r)
      \<and> agente_designado (obj_ticket (snd (processar_mensagem w tid rid texto s)) r) = agente_designado (obj_ticket s r)"
  proof (cases "dict_get (tickets s) tid")
    case None
    then show ?thesis by (simp add: processar_mensagem_def)
  next
    case (Some tr)
    show ?thesis
    proof (cases "identificar_remetente s tr rid")
      case None
      with Some show ?thesis by (simp add: processar_mensagem_def)
    next
      case (Some rnome)
      with \<open>dict_get (tickets s) tid = Some tr\<close> show ?thesis
        by (simp add: processar_mensagem_def Let_def case_prod_beta nova_mensagem_eq
              adicionar_mensagem_eq get_resposta_problema muda_ticket_def agora_def)
    qed
  qed
  then show "tickets (snd (processar_mensagem w tid rid texto s)) = tickets s"
    "tempo_resolucao (obj_ticket (snd (processar_mensagem w tid rid texto s)) r) = tempo_resolucao (obj_ticket s r)"
    "agente_designado (obj_ticket (snd (processar_mensagem w tid rid texto s)) r) = agente_designado (obj_ticket s r)"
    by simp_all
qed

lemma avaliar_satisfacao_quadro:
  "tickets (snd (avaliar_satisfacao w tid nota c s)) = tickets s"
  "tempo_resolucao (obj_ticket (snd (avaliar_satisfacao w tid nota c s)) r) = tempo_resolucao (obj_ticket s r)"
  "agente_designado (obj_ticket (snd (avaliar_satisfacao w tid nota c s)) r) = agente_designado (obj_ticket s r)"
  by (simp_all add: avaliar_satisfacao_def Let_def case_prod_beta nova_mensagem_eq
        adicionar_mensagem_eq muda_ticket_def split: option.split)

lemma apos_status_quadro:
  "tickets (apos_status w tr st c s) = tickets s"
  "obj_agente (apos_status w tr st c s) = obj_agente s"
  "agentes (apos_status w tr st c s) = agentes s"
  "tempo_resolucao (obj_ticket (apos_status w tr st c s) r) = tempo_resolucao (obj_ticket s r)"
  "agente_designado (obj_ticket (apos_status w tr st c s) r) = agente_designado (obj_ticket s r)"
  "criado_em (obj_ticket (apos_status w tr st c s) r) = criado_em (obj_ticket s r)"
  "status (obj_ticket (apos_status w tr st c s) tr) = st"
  "relogio_lido (apos_status w tr st c s) = relogio_lido s + (if comentario_presente c then 2 else 0)"
  by (simp_all add: apos_status_def)

lemma atualizar_status_quadro:
  "tickets (estado_apos (atualizar_status_ticket w tid st c s)) = tickets s"
  "agente_designado (obj_ticket (estado_apos (atualizar_status_ticket w tid st c s)) r) = agente_designado (obj_ticket s r)"
  "agente_designado (obj_ticket s r) = None \<Longrightarrow>
     tempo_resolucao (obj_ticket (estado_apos (atualizar_status_ticket w tid st c s)) r) = tempo_resolucao (obj_ticket s r)"
proof -
  have "tickets (estado_apos (atualizar_status_ticket w tid st c s)) = tickets s
    \<and> agente_designado (obj_ticket (estado_apos (atualizar_status_ticket w tid st c s)) r) = agente_designado (obj_ticket s r)
    \<and> (agente_designado (obj_ticket s r) = None \<longrightarrow>
     tempo_resolucao (obj_ticket (estado_apos (atualizar_status_ticket w tid st c s)) r) = tempo_resolucao (obj_ticket s r))"
  proof (cases "dict_get (tickets s) tid")
    case None
    then show ?thesis by (simp add: atualizar_status_inexistente estado_apos_def)
  next
    case (Some tr)
    show ?thesis
    proof (cases "st \<noteq> RESOLVIDO \<or> agente_designado (obj_ticket s tr) = None")
      case True
      show ?thesis
        by (simp add: atualizar_status_sem_resolucao [OF Some True] estado_apos_def apos_status_quadro)
    next
      case False
      then obtain ar where st: "st = RESOLVIDO" and ar: "agente_designado (obj_ticket s tr) = Some ar"
        by auto
      show ?thesis
        unfolding st atualizar_status_resolvido [OF Some ar]
        using ar
        by (auto simp add: estado_apos_def Let_def apos_status_quadro split: sum.split)
    qed
  qed
  then show "tickets (estado_apos (atualizar_status_ticket w tid st c s)) = tickets s"
  "agente_designado (obj_ticket (estado_apos (atualizar_status_ticket w tid st c s)) r) = agente_designado (obj_ticket s r)"
  "agente_designado (obj_ticket s r) = None \<Longrightarrow>
     tempo_resolucao (obj_ticket (estado_apos (atualizar_status_ticket w tid st c s)) r) = tempo_resolucao (obj_ticket s r)"
    by simp_all
qed


lemma preserva_quadro:
  assumes inv: "sem_agente_sem_resolucao s"
    and t: "tickets s' = tickets s"
    and a: "\<And>r. agente_designado (obj_ticket s' r) = None \<Longrightarrow> agente_designado (obj_ticket s r) = None"
    and d: "\<And>r. agente_designado (obj_ticket s r) = None \<Longrightarrow>
              tempo_resolucao (obj_ticket s' r) = tempo_resolucao (obj_ticket s r)"
  shows "sem_agente_sem_resolucao s'"
  using inv unfolding sem_agente_sem_resolucao_def t
  by (auto dest!: a simp: d)

lemma designar_ticket_preserva:
  "sem_agente_sem_resolucao s \<Longrightarrow> sem_agente_sem_resolucao (snd (designar_ticket w tr s))"
  by (erule preserva_quadro) (simp_all add: designar_ticket_quadro)

lemma criar_ticket_preserva:
  assumes "sem_agente_sem_resolucao s"
  shows "sem_agente_sem_resolucao (snd (criar_ticket w cr tit descr s))"
proof -
  have i: "\<And>tid r. (tid, r) \<in> set (tickets s) \<Longrightarrow> agente_designado (obj_ticket s r) = None
            \<Longrightarrow> tempo_resolucao (obj_ticket s r) = None"
    using assms by (auto simp: sem_agente_sem_resolucao_def)
  show ?thesis
    unfolding criar_ticket_def Let_def case_prod_beta snd_conv
    by (rule designar_ticket_preserva)
       (auto simp add: sem_agente_sem_resolucao_def nova_mensagem_eq adicionar_mensagem_eq
          muda_cliente_def novo_uuid_def agora_def dest!: set_dict_set dest: i)
qed

lemma executar_chamada_preserva:
  assumes "sem_agente_sem_resolucao s"
  shows "sem_agente_sem_resolucao (executar_chamada w c s)"
proof (cases c)
  case (AdicionarAgente ar)
  with assms show ?thesis
    by (simp add: sem_agente_sem_resolucao_def adicionar_agente_def)
next
  case (AdicionarEspecializacao ar e)
  with assms show ?thesis
    by (simp add: sem_agente_sem_resolucao_def adicionar_especializacao_def muda_agente_def)
next
  case (RegistrarCliente nome email)
  with assms show ?thesis
    by (simp add: sem_agente_sem_resolucao_def registrar_cliente_def Let_def case_prod_beta
          novo_uuid_def)
next
  case (CriarTicket cr tit descr)
  with assms show ?thesis by (simp add: criar_ticket_preserva)
next
  case (DesignarTicket tr)
  with assms show ?thesis by (simp add: designar_ticket_preserva)
next
  case (ProcessarMensagem tid rid texto)
  from assms show ?thesis
    unfolding ProcessarMensagem executar_chamada.simps
    by (rule preserva_quadro) (simp_all add: processar_mensagem_quadro)
next
  case (AtualizarStatusTicket tid st cm)
  from assms show ?thesis
    unfolding AtualizarStatusTicket executar_chamada.simps
    by (rule preserva_quadro) (simp_all add: atualizar_status_quadro)
next
  case (AvaliarSatisfacao tid nota cm)
  from assms show ?thesis
    unfolding AvaliarSatisfacao executar_chamada.simps
    by (rule preserva_quadro) (simp_all add: avaliar_satisfacao_quadro)
qed

lemma executar_preserva:
  "sem_agente_sem_resolucao s \<Longrightarrow> sem_agente_sem_resolucao (executar w cs s)"
  by (induction cs arbitrary: s) (simp_all add: executar_chamada_preserva)

lemma sistema_vazio_invariante: "tickets s = [] \<Longrightarrow> sem_agente_sem_resolucao s"
  by (simp add: sem_agente_sem_resolucao_def)

text \<open>
  C10. In a system that started empty and has gone through any sequence of calls, for a
  registered ticket with no assigned agent, \<open>atualizar_status_ticket\<close> with \<open>RESOLVIDO\<close>
  returns true and sets the status to \<open>RESOLVIDO\<close>; the ticket's \<open>tempo_resolucao\<close> stays
  \<open>None\<close>, and no agent object and no entry of the agent registry changes.
\<close>

theorem resolver_sem_agente:
  assumes "tickets s0 = []"
    and "dict_get (tickets (executar w cs s0)) tid = Some tr"
    and "agente_designado (obj_ticket (executar w cs s0) tr) = None"
  shows "\<exists>s'. atualizar_status_ticket w tid RESOLVIDO comentario (executar w cs s0) = Inr (True, s')
     \<and> status (obj_ticket s' tr) = RESOLVIDO
     \<and> tempo_resolucao (obj_ticket s' tr) = None
     \<and> obj_agente s' = obj_agente (executar w cs s0)
     \<and> agentes s' = agentes (executar w cs s0)"
proof -
  have "sem_agente_sem_resolucao (executar w cs s0)"
    using assms(1) by (intro executar_preserva sistema_vazio_invariante)
  with dict_get_mem [OF assms(2)] assms(3)
  have "tempo_resolucao (obj_ticket (executar w cs s0) tr) = None"
    by (auto simp: sem_agente_sem_resolucao_def)
  then show ?thesis
    by (simp add: atualizar_status_sem_resolucao [OF assms(2) disjI2 [OF assms(3)]]
          apos_status_quadro)
qed

lemma ticket_sem_agente_exemplo:
  "tickets estado_inicial = []"
  "dict_get (tickets (executar mundo_exemplo [CriarTicket 0 ''Sistema parado'' ''sistema urgente'']
                        estado_inicial)) ''uuid-'' = Some 0"
  "agente_designado
     (obj_ticket (executar mundo_exemplo [CriarTicket 0 ''Sistema parado'' ''sistema urgente'']
                    estado_inicial) 0) = None"
proof -
  show "tickets estado_inicial = []" by (simp add: estado_inicial_def)
  have c: "\<And>s. agentes s = [] \<Longrightarrow> candidatos s = []"
    by (simp add: candidatos_def dict_values_def)
  show "dict_get (tickets (executar mundo_exemplo [CriarTicket 0 ''Sistema parado'' ''sistema urgente'']
                        estado_inicial)) ''uuid-'' = Some 0"
    by (simp add: criar_ticket_def Let_def case_prod_beta nova_mensagem_eq adicionar_mensagem_eq
          muda_cliente_def novo_uuid_def agora_def designar_ticket_sem_candidatos c
          estado_inicial_def mundo_exemplo_def)
  show "agente_designado
     (obj_ticket (executar mundo_exemplo [CriarTicket 0 ''Sistema parado'' ''sistema urgente'']
                    estado_inicial) 0) = None"
    by (simp add: criar_ticket_def Let_def case_prod_beta nova_mensagem_eq adicionar_mensagem_eq
          muda_cliente_def novo_uuid_def agora_def designar_ticket_sem_candidatos c
          estado_inicial_def mundo_exemplo_def)
qed

theorem resolver_sem_agente_witness:
  "tickets estado_inicial = []
   \<and> dict_get (tickets (executar mundo_exemplo [CriarTicket 0 ''Sistema parado'' ''sistema urgente'']
                          estado_inicial)) ''uuid-'' = Some 0
   \<and> agente_designado
       (obj_ticket (executar mundo_exemplo [CriarTicket 0 ''Sistema parado'' ''sistema urgente'']
                      estado_inicial) 0) = None
   \<and> (\<exists>s'. atualizar_status_ticket mundo_exemplo ''uuid-'' RESOLVIDO None
              (executar mundo_exemplo [CriarTicket 0 ''Sistema parado'' ''sistema urgente'']
                 estado_inicial) = Inr (True, s')
          \<and> status (obj_ticket s' 0) = RESOLVIDO
          \<and> tempo_resolucao (obj_ticket s' 0) = None
          \<and> obj_agente s' = obj_agente (executar mundo_exemplo
                 [CriarTicket 0 ''Sistema parado'' ''sistema urgente''] estado_inicial)
          \<and> agentes s' = agentes (executar mundo_exemplo
                 [CriarTicket 0 ''Sistema parado'' ''sistema urgente''] estado_inicial))"
  using ticket_sem_agente_exemplo
    resolver_sem_agente [OF ticket_sem_agente_exemplo, of None]
  by blast

section \<open>A run of the system\<close>

lemma criar_ticket_eq:
  "criar_ticket w cr tit descr s =
     (prox_ticket s, snd (designar_ticket w (prox_ticket s) (ticket_registrado w cr tit descr s)))"
  unfolding criar_ticket_def Let_def case_prod_beta
  apply (rule arg_cong2 [where f = Pair])
   apply (rule refl)
  apply (rule arg_cong [where f = snd])
  apply (rule arg_cong [where f = "designar_ticket w (prox_ticket s)"])
  apply (simp add: ticket_registrado_def nova_mensagem_eq adicionar_mensagem_eq
        muda_cliente_def novo_uuid_def agora_def eval_nat_numeral)
  done

lemma candidatos_um:
  "agentes s = [(k, ar)] \<Longrightarrow> disponivel (obj_agente s ar) \<Longrightarrow> carga_trabalho (obj_agente s ar) < 5
    \<Longrightarrow> candidatos s = [ar]"
  by (simp add: candidatos_def dict_values_def)

lemma selecionado_um: "candidatos s = [ar] \<Longrightarrow> selecionado s tr = ar"
  by (simp add: selecionado_def)

lemma estado_designado_eq:
  "estado_designado =
     snd (designar_ticket mundo_exemplo 0
            (ticket_registrado mundo_exemplo 0 ''Sistema parado'' ''sistema urgente''
               (snd (registrar_cliente mundo_exemplo ''Ana'' ''ana@exemplo.com''
                       (adicionar_agente 0 estado_inicial)))))"
  by (simp add: estado_designado_def chamadas_exemplo_def criar_ticket_eq
        registrar_cliente_def adicionar_agente_def Let_def case_prod_beta novo_uuid_def
        estado_inicial_def)

lemma estado_designado_campos:
  "tickets estado_designado = [(''uuid-i'', 0)]"
  "agentes estado_designado = [(''1'', 0)]"
  "agente_designado (obj_ticket estado_designado 0) = Some 0"
  "criado_em (obj_ticket estado_designado 0) = 0"
  "tempo_resolucao (obj_ticket estado_designado 0) = None"
  "tempo_primeira_resposta (obj_ticket estado_designado 0) = Some 28800000000"
  "status (obj_ticket estado_designado 0) = DESIGNADO"
  "relogio_lido estado_designado = 7"
  "obj_agente estado_designado 0 = joao\<lparr>carga_trabalho := 1\<rparr>"
proof -
  let ?s = "ticket_registrado mundo_exemplo 0 ''Sistema parado'' ''sistema urgente''
               (snd (registrar_cliente mundo_exemplo ''Ana'' ''ana@exemplo.com''
                       (adicionar_agente 0 estado_inicial)))"
  have c: "candidatos ?s = [0]"
    by (rule candidatos_um [of _ "''1''"])
       (simp_all add: ticket_registrado_def registrar_cliente_def adicionar_agente_def Let_def
          case_prod_beta novo_uuid_def estado_inicial_def joao_def)
  then have n: "candidatos ?s \<noteq> []" by simp
  note u = estado_designado_eq designar_ticket_snd [OF n] selecionado_um [OF c]
  note d = ticket_registrado_def registrar_cliente_def adicionar_agente_def Let_def
    case_prod_beta novo_uuid_def estado_inicial_def mundo_exemplo_def td_verdadeiro_def joao_def
  show "tickets estado_designado = [(''uuid-i'', 0)]" unfolding u by (simp add: d)
  show "agentes estado_designado = [(''1'', 0)]" unfolding u by (simp add: d)
  show "agente_designado (obj_ticket estado_designado 0) = Some 0" unfolding u by (simp add: d)
  show "criado_em (obj_ticket estado_designado 0) = 0" unfolding u by (simp add: d)
  show "tempo_resolucao (obj_ticket estado_designado 0) = None" unfolding u by (simp add: d)
  show "tempo_primeira_resposta (obj_ticket estado_designado 0) = Some 28800000000"
    unfolding u by (simp add: d)
  show "status (obj_ticket estado_designado 0) = DESIGNADO" unfolding u by (simp add: d)
  show "relogio_lido estado_designado = 7" unfolding u by (simp add: d)
  show "obj_agente estado_designado 0 = joao\<lparr>carga_trabalho := 1\<rparr>"
    unfolding u by (simp add: d)
qed


lemma resolvido_campos:
  assumes "dict_get (tickets s) tid = Some tr"
    and "agente_designado (obj_ticket s tr) = Some ar"
  shows "tempo_resolucao (obj_ticket (estado_apos (atualizar_status_ticket w tid RESOLVIDO c s)) tr)
           = Some (relogio w (relogio_lido s + (if comentario_presente c then 2 else 0))
                   - criado_em (obj_ticket s tr))"
    and "carga_trabalho (obj_agente (estado_apos (atualizar_status_ticket w tid RESOLVIDO c s)) ar)
           = carga_trabalho (obj_agente s ar) - 1"
    and "tickets_resolvidos (obj_agente (estado_apos (atualizar_status_ticket w tid RESOLVIDO c s)) ar)
           = tickets_resolvidos (obj_agente s ar) + 1"
    and "r \<noteq> ar \<Longrightarrow>
           obj_agente (estado_apos (atualizar_status_ticket w tid RESOLVIDO c s)) r = obj_agente s r"
    and "status (obj_ticket (estado_apos (atualizar_status_ticket w tid RESOLVIDO c s)) tr) = RESOLVIDO"
    and "relogio_lido (estado_apos (atualizar_status_ticket w tid RESOLVIDO c s))
           = relogio_lido s + (if comentario_presente c then 2 else 0) + 1"
  unfolding atualizar_status_resolvido [OF assms]
  by (simp_all add: estado_apos_def Let_def apos_status_quadro split: sum.split)

lemma outro_status_campos:
  assumes "st \<noteq> RESOLVIDO"
  shows "tempo_resolucao (obj_ticket (estado_apos (atualizar_status_ticket w tid st c s)) r)
           = tempo_resolucao (obj_ticket s r)"
    and "obj_agente (estado_apos (atualizar_status_ticket w tid st c s)) = obj_agente s"
proof -
  have "tempo_resolucao (obj_ticket (estado_apos (atualizar_status_ticket w tid st c s)) r)
           = tempo_resolucao (obj_ticket s r)
      \<and> obj_agente (estado_apos (atualizar_status_ticket w tid st c s)) = obj_agente s"
  proof (cases "dict_get (tickets s) tid")
    case None
    then show ?thesis by (simp add: atualizar_status_inexistente estado_apos_def)
  next
    case (Some tr)
    show ?thesis
      by (simp add: atualizar_status_sem_resolucao [OF Some disjI1 [OF assms]] estado_apos_def
            apos_status_quadro)
  qed
  then show "tempo_resolucao (obj_ticket (estado_apos (atualizar_status_ticket w tid st c s)) r)
           = tempo_resolucao (obj_ticket s r)"
    and "obj_agente (estado_apos (atualizar_status_ticket w tid st c s)) = obj_agente s"
    by simp_all
qed

lemma estado_resolvido_campos:
  "dict_get (tickets estado_designado) ''uuid-i'' = Some 0"
  "dict_get (tickets estado_resolvido) ''uuid-i'' = Some 0"
  "agente_designado (obj_ticket estado_resolvido 0) = Some 0"
  "status (obj_ticket estado_resolvido 0) = RESOLVIDO"
  "tempo_resolucao (obj_ticket estado_resolvido 0) = Some 50400000000"
  "criado_em (obj_ticket estado_resolvido 0) = 0"
  "relogio_lido estado_resolvido = 8"
  "carga_trabalho (obj_agente estado_resolvido 0) = 0"
  "tickets_resolvidos (obj_agente estado_resolvido 0) = 1"
proof -
  show t: "dict_get (tickets estado_designado) ''uuid-i'' = Some 0"
    by (simp add: estado_designado_campos)
  note a = estado_designado_campos(3)
  note r = resolvido_campos [OF t a]
  show "dict_get (tickets estado_resolvido) ''uuid-i'' = Some 0"
    by (simp add: estado_resolvido_def atualizar_status_quadro estado_designado_campos)
  show "agente_designado (obj_ticket estado_resolvido 0) = Some 0"
    by (simp add: estado_resolvido_def atualizar_status_quadro estado_designado_campos)
  show "status (obj_ticket estado_resolvido 0) = RESOLVIDO"
    by (simp add: estado_resolvido_def r)
  show "tempo_resolucao (obj_ticket estado_resolvido 0) = Some 50400000000"
    by (simp add: estado_resolvido_def r comentario_presente_def estado_designado_campos
          mundo_exemplo_def)
  show "criado_em (obj_ticket estado_resolvido 0) = 0"
    unfolding estado_resolvido_def executar.simps executar_chamada.simps
      atualizar_status_resolvido [OF t a]
    by (simp add: estado_apos_def Let_def apos_status_quadro estado_designado_campos
          split: sum.split)
  show "relogio_lido estado_resolvido = 8"
    by (simp add: estado_resolvido_def r comentario_presente_def estado_designado_campos)
  show "carga_trabalho (obj_agente estado_resolvido 0) = 0"
    by (simp add: estado_resolvido_def r estado_designado_campos)
  show "tickets_resolvidos (obj_agente estado_resolvido 0) = 1"
    by (simp add: estado_resolvido_def r estado_designado_campos joao_def)
qed

text \<open>
  C2, as the code has it. Every call of \<open>atualizar_status_ticket\<close> with \<open>RESOLVIDO\<close> on a
  registered ticket that has an assigned agent writes \<open>tempo_resolucao\<close>: the clock reading
  of that call minus \<open>criado_em\<close>, whatever the status was before, \<open>RESOLVIDO\<close> included.
  A call with another status leaves \<open>tempo_resolucao\<close> of every ticket as it was.
\<close>

theorem tempo_resolucao_a_cada_resolucao:
  "(dict_get (tickets s) tid = Some tr \<and> agente_designado (obj_ticket s tr) = Some ar
      \<longrightarrow> tempo_resolucao (obj_ticket (estado_apos (atualizar_status_ticket w tid RESOLVIDO c s)) tr)
            = Some (relogio w (relogio_lido s + (if comentario_presente c then 2 else 0))
                    - criado_em (obj_ticket s tr)))
   \<and> (st \<noteq> RESOLVIDO
      \<longrightarrow> tempo_resolucao (obj_ticket (estado_apos (atualizar_status_ticket w tid st c s)) r)
            = tempo_resolucao (obj_ticket s r))"
  using resolvido_campos(1) outro_status_campos(1) by blast

theorem tempo_resolucao_a_cada_resolucao_witness:
  "dict_get (tickets estado_resolvido) ''uuid-i'' = Some 0
   \<and> agente_designado (obj_ticket estado_resolvido 0) = Some 0
   \<and> status (obj_ticket estado_resolvido 0) = RESOLVIDO
   \<and> tempo_resolucao
        (obj_ticket (estado_apos (atualizar_status_ticket mundo_exemplo ''uuid-i'' RESOLVIDO None
                                    estado_resolvido)) 0)
       = Some (relogio mundo_exemplo 8 - 0)
   \<and> FECHADO \<noteq> RESOLVIDO
   \<and> tempo_resolucao
        (obj_ticket (estado_apos (atualizar_status_ticket mundo_exemplo ''uuid-i'' FECHADO None
                                    estado_resolvido)) 0)
       = tempo_resolucao (obj_ticket estado_resolvido 0)"
  using tempo_resolucao_a_cada_resolucao
          [where s = estado_resolvido and tid = "''uuid-i''" and tr = 0 and ar = 0
             and w = mundo_exemplo and c = None and st = FECHADO and r = 0]
  by (simp add: estado_resolvido_campos comentario_presente_def)

text \<open>
  C2 as stated fails: a ticket already \<open>RESOLVIDO\<close>, resolved fourteen hours after its
  creation, is given a second resolution time of sixteen hours by a second call.
\<close>

theorem tempo_resolucao_uma_vez_counterexample:
  "status (obj_ticket estado_resolvido 0) = RESOLVIDO
   \<and> tempo_resolucao (obj_ticket estado_resolvido 0) = Some 50400000000
   \<and> tempo_resolucao
        (obj_ticket (estado_apos (atualizar_status_ticket mundo_exemplo ''uuid-i'' RESOLVIDO None
                                    estado_resolvido)) 0)
       = Some 57600000000"
  by (simp add: estado_resolvido_campos
        resolvido_campos(1) [OF estado_resolvido_campos(2) estado_resolvido_campos(3)]
        comentario_presente_def mundo_exemplo_def)

lemma designar_ticket_agentes:
  "candidatos s \<noteq> [] \<Longrightarrow>
     carga_trabalho (obj_agente (snd (designar_ticket w tr s)) (selecionado s tr))
       = carga_trabalho (obj_agente s (selecionado s tr)) + 1"
  "candidatos s \<noteq> [] \<Longrightarrow> r \<noteq> selecionado s tr \<Longrightarrow>
     obj_agente (snd (designar_ticket w tr s)) r = obj_agente s r"
  "candidatos s = [] \<Longrightarrow> obj_agente (snd (designar_ticket w tr s)) = obj_agente s"
  by (simp_all add: designar_ticket_snd designar_ticket_sem_candidatos)

lemma resolucoes_repetidas:
  assumes "dict_get (tickets s) tid = Some tr"
    and "agente_designado (obj_ticket s tr) = Some ar"
  shows "carga_trabalho
           (obj_agente (executar w (replicate k (AtualizarStatusTicket tid RESOLVIDO c)) s) ar)
         = carga_trabalho (obj_agente s ar) - int k"
  using assms
proof (induction k arbitrary: s)
  case 0
  show ?case by simp
next
  case (Suc k)
  let ?s = "estado_apos (atualizar_status_ticket w tid RESOLVIDO c s)"
  have "dict_get (tickets ?s) tid = Some tr" "agente_designado (obj_ticket ?s tr) = Some ar"
    using Suc.prems by (simp_all add: atualizar_status_quadro)
  from Suc.IH [OF this] show ?case
    by (simp add: resolvido_campos(2) [OF Suc.prems])
qed

text \<open>
  C3, as the code has it. Each call of \<open>designar_ticket\<close> that finds a candidate adds one
  to the workload of the agent it selects and changes no other agent; a call that finds
  none changes no agent. Each call of \<open>atualizar_status_ticket\<close> with \<open>RESOLVIDO\<close> on a
  registered ticket that has an assigned agent takes one from that agent's workload and
  changes no other agent, also when the ticket is already \<open>RESOLVIDO\<close>: \<open>k\<close> such calls in a
  row take \<open>k\<close>. A call with another status changes no agent.
\<close>

theorem carga_trabalho_por_chamada:
  "(candidatos s \<noteq> []
      \<longrightarrow> carga_trabalho (obj_agente (snd (designar_ticket w tr s)) (selecionado s tr))
            = carga_trabalho (obj_agente s (selecionado s tr)) + 1
          \<and> (\<forall>r. r \<noteq> selecionado s tr
                \<longrightarrow> obj_agente (snd (designar_ticket w tr s)) r = obj_agente s r))
   \<and> (candidatos s = [] \<longrightarrow> obj_agente (snd (designar_ticket w tr s)) = obj_agente s)
   \<and> (dict_get (tickets s) tid = Some tr \<and> agente_designado (obj_ticket s tr) = Some ar
      \<longrightarrow> carga_trabalho (obj_agente (estado_apos (atualizar_status_ticket w tid RESOLVIDO c s)) ar)
            = carga_trabalho (obj_agente s ar) - 1
          \<and> (\<forall>r. r \<noteq> ar
                \<longrightarrow> obj_agente (estado_apos (atualizar_status_ticket w tid RESOLVIDO c s)) r
                    = obj_agente s r)
          \<and> carga_trabalho
               (obj_agente (executar w (replicate k (AtualizarStatusTicket tid RESOLVIDO c)) s) ar)
            = carga_trabalho (obj_agente s ar) - int k)
   \<and> (st \<noteq> RESOLVIDO
      \<longrightarrow> obj_agente (estado_apos (atualizar_status_ticket w tid st c s)) = obj_agente s)"
  using designar_ticket_agentes resolvido_campos(2,4) resolucoes_repetidas
    outro_status_campos(2)
  by (intro conjI impI allI; (elim conjE)?; simp)

theorem carga_trabalho_por_chamada_witness:
  "candidatos estado_dois_agentes \<noteq> []
   \<and> carga_trabalho (obj_agente (snd (designar_ticket mundo_exemplo 0 estado_dois_agentes))
                       (selecionado estado_dois_agentes 0))
       = carga_trabalho (obj_agente estado_dois_agentes (selecionado estado_dois_agentes 0)) + 1
   \<and> dict_get (tickets estado_resolvido) ''uuid-i'' = Some 0
   \<and> agente_designado (obj_ticket estado_resolvido 0) = Some 0
   \<and> carga_trabalho (obj_agente estado_resolvido 0) = 0
   \<and> carga_trabalho
        (obj_agente (estado_apos (atualizar_status_ticket mundo_exemplo ''uuid-i'' RESOLVIDO None
                                    estado_resolvido)) 0) = - 1
   \<and> carga_trabalho
        (obj_agente (executar mundo_exemplo
                       (replicate 3 (AtualizarStatusTicket ''uuid-i'' RESOLVIDO None))
                       estado_resolvido) 0) = - 3
   \<and> FECHADO \<noteq> RESOLVIDO
   \<and> obj_agente (estado_apos (atualizar_status_ticket mundo_exemplo ''uuid-i'' FECHADO None
                                 estado_resolvido)) = obj_agente estado_resolvido"
proof -
  have h: "candidatos estado_dois_agentes \<noteq> []"
    by (simp add: candidatos_def estado_dois_agentes_def estado_um_ticket_def estado_inicial_def
          dict_values_def joao_def maria_def)
  note c = carga_trabalho_por_chamada
             [where s = estado_dois_agentes and w = mundo_exemplo and tr = 0]
  note e = carga_trabalho_por_chamada
             [where s = estado_resolvido and w = mundo_exemplo and tid = "''uuid-i''" and tr = 0
                and ar = 0 and c = None and k = 3 and st = FECHADO]
  from c h have "carga_trabalho (obj_agente (snd (designar_ticket mundo_exemplo 0 estado_dois_agentes))
                       (selecionado estado_dois_agentes 0))
       = carga_trabalho (obj_agente estado_dois_agentes (selecionado estado_dois_agentes 0)) + 1"
    by blast
  moreover from e have "carga_trabalho
        (obj_agente (estado_apos (atualizar_status_ticket mundo_exemplo ''uuid-i'' RESOLVIDO None
                                    estado_resolvido)) 0) = - 1"
    "carga_trabalho
        (obj_agente (executar mundo_exemplo
                       (replicate 3 (AtualizarStatusTicket ''uuid-i'' RESOLVIDO None))
                       estado_resolvido) 0) = - 3"
    "obj_agente (estado_apos (atualizar_status_ticket mundo_exemplo ''uuid-i'' FECHADO None
                                 estado_resolvido)) = obj_agente estado_resolvido"
    by (simp_all add: estado_resolvido_campos)
  ultimately show ?thesis
    using h by (simp add: estado_resolvido_campos)
qed

text \<open>
  C3 as stated fails: one assignment and two calls with \<open>RESOLVIDO\<close> on the same ticket
  leave the agent, who started with no workload, with a workload of minus one.
\<close>

theorem carga_trabalho_uma_vez_counterexample:
  "carga_trabalho (obj_agente estado_inicial 0) = 0
   \<and> carga_trabalho (obj_agente estado_designado 0) = 1
   \<and> carga_trabalho (obj_agente estado_resolvido 0) = 0
   \<and> carga_trabalho
        (obj_agente (executar mundo_exemplo [AtualizarStatusTicket ''uuid-i'' RESOLVIDO None]
                       estado_resolvido) 0) = - 1"
  by (simp add: estado_resolvido_campos estado_designado_campos estado_inicial_def joao_def
        resolvido_campos(2) [OF estado_resolvido_campos(2) estado_resolvido_campos(3)])

section \<open>Registration: adicionar_agente\<close>

text \<open>
  C4, as the code has it. \<open>adicionar_agente\<close> stores the agent under its identifier and
  changes nothing else; an identifier that is already registered keeps its place in the
  registry and now refers to the new agent, and no error is reported.
\<close>

theorem adicionar_agente_substitui:
  "dict_get (agentes (adicionar_agente ar s)) k
     = (if k = agente_id (obj_agente s ar) then Some ar else dict_get (agentes s) k)
   \<and> map fst (agentes (adicionar_agente ar s))
     = (if agente_id (obj_agente s ar) \<in> fst ` set (agentes s) then map fst (agentes s)
        else map fst (agentes s) @ [agente_id (obj_agente s ar)])
   \<and> adicionar_agente ar s = s\<lparr>agentes := agentes (adicionar_agente ar s)\<rparr>"
  by (simp add: adicionar_agente_def dict_get_set chaves_dict_set)

theorem adicionar_agente_substitui_witness:
  "dict_get (agentes (adicionar_agente 2 (adicionar_agente 0 estado_inicial))) ''1'' = Some 2
   \<and> map fst (agentes (adicionar_agente 2 (adicionar_agente 0 estado_inicial))) = [''1'']"
  using adicionar_agente_substitui [of 2 "adicionar_agente 0 estado_inicial" "''1''"]
  by (simp add: adicionar_agente_def estado_inicial_def jose_def joao_def)

text \<open>
  C4 as stated fails: once \<open>joao\<close> is registered under identifier 1, registering another
  agent object that carries the same identifier yields a registry in which identifier 1
  refers to the other object.
\<close>

theorem adicionar_agente_duplicado_counterexample:
  "agente_id (obj_agente estado_inicial 2) = agente_id (obj_agente estado_inicial 0)
   \<and> obj_agente estado_inicial 2 \<noteq> obj_agente estado_inicial 0
   \<and> agentes (adicionar_agente 0 estado_inicial) = [(''1'', 0)]
   \<and> agentes (adicionar_agente 2 (adicionar_agente 0 estado_inicial)) = [(''1'', 2)]"
  by (simp add: adicionar_agente_def estado_inicial_def jose_def joao_def)

section \<open>First response time\<close>

lemma executar_append: "executar w (cs @ ds) s = executar w ds (executar w cs s)"
  by (induction cs arbitrary: s) simp_all

lemma primeira_resposta_mantida:
  assumes "td_verdadeiro (tempo_primeira_resposta (obj_ticket s tr))"
  shows "tempo_primeira_resposta (obj_ticket (snd (designar_ticket w tr s)) tr)
           = tempo_primeira_resposta (obj_ticket s tr)"
  using assms
  by (cases "candidatos s = []")
     (simp_all add: designar_ticket_sem_candidatos designar_ticket_snd)

lemma primeira_resposta_registrada:
  assumes "candidatos s \<noteq> []" "\<not> td_verdadeiro (tempo_primeira_resposta (obj_ticket s tr))"
  shows "tempo_primeira_resposta (obj_ticket (snd (designar_ticket w tr s)) tr)
           = Some (relogio w (relogio_lido s) - criado_em (obj_ticket s tr))"
  using assms by (simp add: designar_ticket_snd)

lemma execucao_exemplo_eq:
  "executar w chamadas_exemplo estado_inicial =
     snd (designar_ticket w 0
            (ticket_registrado w 0 ''Sistema parado'' ''sistema urgente''
               (snd (registrar_cliente w ''Ana'' ''ana@exemplo.com''
                       (adicionar_agente 0 estado_inicial)))))"
  by (simp add: chamadas_exemplo_def criar_ticket_eq
        registrar_cliente_def adicionar_agente_def Let_def case_prod_beta novo_uuid_def
        estado_inicial_def)

lemma execucao_exemplo_campos:
  "agentes (executar w chamadas_exemplo estado_inicial) = [(''1'', 0)]"
  "agente_designado (obj_ticket (executar w chamadas_exemplo estado_inicial) 0) = Some 0"
  "criado_em (obj_ticket (executar w chamadas_exemplo estado_inicial) 0) = relogio w 0"
  "tempo_primeira_resposta (obj_ticket (executar w chamadas_exemplo estado_inicial) 0)
     = Some (relogio w 4 - relogio w 0)"
  "relogio_lido (executar w chamadas_exemplo estado_inicial) = 7"
  "obj_agente (executar w chamadas_exemplo estado_inicial) 0 = joao\<lparr>carga_trabalho := 1\<rparr>"
proof -
  let ?s = "ticket_registrado w 0 ''Sistema parado'' ''sistema urgente''
               (snd (registrar_cliente w ''Ana'' ''ana@exemplo.com''
                       (adicionar_agente 0 estado_inicial)))"
  have c: "candidatos ?s = [0]"
    by (rule candidatos_um [of _ "''1''"])
       (simp_all add: ticket_registrado_def registrar_cliente_def adicionar_agente_def Let_def
          case_prod_beta novo_uuid_def estado_inicial_def joao_def)
  then have n: "candidatos ?s \<noteq> []" by simp
  note u = execucao_exemplo_eq designar_ticket_snd [OF n] selecionado_um [OF c]
  note d = ticket_registrado_def registrar_cliente_def adicionar_agente_def Let_def
    case_prod_beta novo_uuid_def estado_inicial_def td_verdadeiro_def joao_def
  show "agentes (executar w chamadas_exemplo estado_inicial) = [(''1'', 0)]"
    unfolding u by (simp add: d)
  show "agente_designado (obj_ticket (executar w chamadas_exemplo estado_inicial) 0) = Some 0"
    unfolding u by (simp add: d)
  show "criado_em (obj_ticket (executar w chamadas_exemplo estado_inicial) 0) = relogio w 0"
    unfolding u by (simp add: d)
  show "tempo_primeira_resposta (obj_ticket (executar w chamadas_exemplo estado_inicial) 0)
     = Some (relogio w 4 - relogio w 0)"
    unfolding u by (simp add: d)
  show "relogio_lido (executar w chamadas_exemplo estado_inicial) = 7"
    unfolding u by (simp add: d)
  show "obj_agente (executar w chamadas_exemplo estado_inicial) 0 = joao\<lparr>carga_trabalho := 1\<rparr>"
    unfolding u by (simp add: d)
qed

text \<open>
  C7 at a failing input. The test that guards the first response time is the truth value
  of the field, and a zero duration is false. With a clock that has not advanced between
  the creation of the ticket and its first assignment, the first response time is the
  zero duration; a later call of \<open>designar_ticket\<close> on the same ticket then writes the
  field again, here with five seconds.
\<close>

theorem primeira_resposta_regravada:
  "agente_designado
     (obj_ticket (executar mundo_relogio_parado chamadas_exemplo estado_inicial) 0) = Some 0
   \<and> tempo_primeira_resposta
       (obj_ticket (executar mundo_relogio_parado chamadas_exemplo estado_inicial) 0) = Some 0
   \<and> tempo_primeira_resposta
       (obj_ticket (executar mundo_relogio_parado (chamadas_exemplo @ [DesignarTicket 0])
                      estado_inicial) 0) = Some 5000000"
proof -
  let ?s = "executar mundo_relogio_parado chamadas_exemplo estado_inicial"
  have p: "tempo_primeira_resposta (obj_ticket ?s 0) = Some 0"
    by (simp add: execucao_exemplo_campos mundo_relogio_parado_def)
  have c: "candidatos ?s \<noteq> []"
    using candidatos_um [of ?s "''1''" 0]
    by (simp add: execucao_exemplo_campos joao_def)
  have "tempo_primeira_resposta (obj_ticket (snd (designar_ticket mundo_relogio_parado 0 ?s)) 0)
          = Some 5000000"
    by (subst primeira_resposta_registrada [OF c])
       (simp_all add: p td_verdadeiro_def execucao_exemplo_campos mundo_relogio_parado_def)
  with p show ?thesis
    by (simp add: executar_append execucao_exemplo_campos)
qed

section \<open>The report: gerar_relatorio_desempenho\<close>

lemma estado_fechado_campos:
  "tickets estado_fechado = [(''uuid-i'', 0)]"
  "status (obj_ticket estado_fechado 0) = FECHADO"
  "tempo_resolucao (obj_ticket estado_fechado 0) = Some 50400000000"
proof -
  have t: "dict_get (tickets estado_resolvido) ''uuid-i'' = Some 0"
    by (rule estado_resolvido_campos)
  have f: "estado_fechado = apos_status mundo_exemplo 0 FECHADO None estado_resolvido"
    by (simp add: estado_fechado_def estado_apos_def
          atualizar_status_sem_resolucao [OF t disjI1])
  show "tickets estado_fechado = [(''uuid-i'', 0)]"
    by (simp add: f apos_status_quadro estado_resolvido_def atualizar_status_quadro
          estado_designado_campos)
  show "status (obj_ticket estado_fechado 0) = FECHADO"
    by (simp add: f apos_status_quadro)
  show "tempo_resolucao (obj_ticket estado_fechado 0) = Some 50400000000"
    by (simp add: f apos_status_quadro estado_resolvido_campos)
qed

text \<open>
  C9 at a failing input. The report adds up \<open>tempo_resolucao\<close> over every ticket that has
  one, whatever its status, and divides by the number of tickets whose status is
  \<open>RESOLVIDO\<close>, not dividing when that number is zero. After the only ticket has been
  resolved (fourteen hours) and then closed, no ticket is \<open>RESOLVIDO\<close>, and the report
  gives fourteen hours as the average where the mean over the resolved tickets is the
  zero duration.
\<close>

theorem relatorio_ticket_fechado:
  "map (\<lambda>tr. (status (obj_ticket estado_fechado tr), tempo_resolucao (obj_ticket estado_fechado tr)))
       (dict_values (tickets estado_fechado)) = [(FECHADO, Some 50400000000)]
   \<and> map_sum id rel_tickets_resolvidos (gerar_relatorio_desempenho estado_fechado) = Inr 0
   \<and> map_sum id rel_tempo_medio_resolucao (gerar_relatorio_desempenho estado_fechado)
       = Inr 50400000000"
  by (simp add: gerar_relatorio_desempenho_def dict_values_def estado_fechado_campos Let_def
        td_verdadeiro_def td_add_def td_novo_def td_min_def td_max_def)

section \<open>The running average of the resolution time\<close>








lemma resolver_passo:
  assumes "dict_get (tickets s) tid = Some tr"
    and "agente_designado (obj_ticket s tr) = Some ar"
    and "media_incremental (tempo_medio_resolucao (obj_agente s ar))
           (tickets_resolvidos (obj_agente s ar) + 1)
           (relogio w (relogio_lido s) - criado_em (obj_ticket s tr)) = Inr m"
  shows "\<exists>s1. atualizar_status_ticket w tid RESOLVIDO None s = Inr (True, s1)
     \<and> tickets s1 = tickets s
     \<and> (\<forall>r. agente_designado (obj_ticket s1 r) = agente_designado (obj_ticket s r))
     \<and> (\<forall>r. criado_em (obj_ticket s1 r) = criado_em (obj_ticket s r))
     \<and> relogio_lido s1 = Suc (relogio_lido s)
     \<and> tickets_resolvidos (obj_agente s1 ar) = tickets_resolvidos (obj_agente s ar) + 1
     \<and> tempo_medio_resolucao (obj_agente s1 ar) = m"
  unfolding atualizar_status_resolvido [OF assms(1,2)]
  using assms(2,3) by (simp add: Let_def apos_status_def comentario_presente_def)

lemma duracoes_cong:
  assumes "tickets s' = tickets s"
    and "\<forall>r. criado_em (obj_ticket s' r) = criado_em (obj_ticket s r)"
    and "relogio_lido s' = relogio_lido s + j"
  shows "duracoes w s' i tids = duracoes w s (i + j) tids"
  using assms
  by (induction tids arbitrary: i) (auto simp: add.commute add.left_commute split: option.split)





lemma resolver_passo_erro:
  assumes "dict_get (tickets s) tid = Some tr"
    and "agente_designado (obj_ticket s tr) = Some ar"
    and "media_incremental (tempo_medio_resolucao (obj_agente s ar))
           (tickets_resolvidos (obj_agente s ar) + 1)
           (relogio w (relogio_lido s) - criado_em (obj_ticket s tr)) = Inl e"
  shows "\<exists>s1. atualizar_status_ticket w tid RESOLVIDO None s = Inl (e, s1)"
  unfolding atualizar_status_resolvido [OF assms(1,2)]
  using assms(3) by (simp add: Let_def apos_status_def comentario_presente_def)

lemma resolver_em_sequencia_medias:
  assumes "\<forall>tid\<in>set tids. \<exists>tr. dict_get (tickets s) tid = Some tr
              \<and> agente_designado (obj_ticket s tr) = Some ar"
  shows "map_sum fst (\<lambda>s'. (tempo_medio_resolucao (obj_agente s' ar),
                            tickets_resolvidos (obj_agente s' ar)))
           (resolver_em_sequencia w tids s)
         = medias_sucessivas (tempo_medio_resolucao (obj_agente s ar))
             (tickets_resolvidos (obj_agente s ar)) (duracoes w s 0 tids)"
  using assms
proof (induction tids arbitrary: s)
  case Nil
  show ?case by simp
next
  case (Cons tid tids)
  from Cons.prems obtain tr where
    t: "dict_get (tickets s) tid = Some tr" and a: "agente_designado (obj_ticket s tr) = Some ar"
    by auto
  define d where "d = relogio w (relogio_lido s) - criado_em (obj_ticket s tr)"
  have ds: "duracoes w s 0 (tid # tids) = d # duracoes w s 1 tids"
    using t by (simp add: d_def)
  show ?case
  proof (cases "media_incremental (tempo_medio_resolucao (obj_agente s ar))
           (tickets_resolvidos (obj_agente s ar) + 1) d")
    case (Inl e)
    from resolver_passo_erro [OF t a Inl [unfolded d_def]]
    obtain s1 where "atualizar_status_ticket w tid RESOLVIDO None s = Inl (e, s1)" by blast
    then show ?thesis unfolding ds using Inl by simp
  next
    case (Inr m)
    from resolver_passo [OF t a Inr [unfolded d_def]]
    obtain s1 where r: "atualizar_status_ticket w tid RESOLVIDO None s = Inr (True, s1)"
      and t1: "tickets s1 = tickets s"
      and a1: "\<forall>r. agente_designado (obj_ticket s1 r) = agente_designado (obj_ticket s r)"
      and c1: "\<forall>r. criado_em (obj_ticket s1 r) = criado_em (obj_ticket s r)"
      and l1: "relogio_lido s1 = Suc (relogio_lido s)"
      and k1: "tickets_resolvidos (obj_agente s1 ar) = tickets_resolvidos (obj_agente s ar) + 1"
      and m1: "tempo_medio_resolucao (obj_agente s1 ar) = m"
      by auto
    have du: "duracoes w s1 0 tids = duracoes w s 1 tids"
      using duracoes_cong [OF t1 c1, of 1 w 0 tids] l1 by simp
    have p1: "\<forall>tid\<in>set tids. \<exists>tr. dict_get (tickets s1) tid = Some tr
              \<and> agente_designado (obj_ticket s1 tr) = Some ar"
      using Cons.prems t1 a1 by simp
    from Cons.IH [OF p1] show ?thesis
      unfolding ds using r Inr by (simp add: du k1 m1)
  qed
qed

text \<open>
  The bound grows with the number of resolutions because every step rounds. Eight
  resolutions that measure 0, 1, 1, 2, 2, 3, 3 and 4 microseconds, whose mean is two
  microseconds, leave an average of zero.
\<close>

lemma media_pode_desviar:
  "duracoes mundo_microssegundos estado_tres_tickets 0
     [''t1'', ''t2'', ''t3'', ''t1'', ''t2'', ''t3'', ''t1'', ''t2''] = [0, 1, 1, 2, 2, 3, 3, 4]"
  "map_sum fst (\<lambda>s'. (tempo_medio_resolucao (obj_agente s' 0), tickets_resolvidos (obj_agente s' 0)))
     (resolver_em_sequencia mundo_microssegundos
        [''t1'', ''t2'', ''t3'', ''t1'', ''t2'', ''t3'', ''t1'', ''t2''] estado_tres_tickets)
   = Inr (0, 8)"
proof -
  have h: "\<forall>tid\<in>set [''t1'', ''t2'', ''t3'', ''t1'', ''t2'', ''t3'', ''t1'', ''t2''].
         \<exists>tr. dict_get (tickets estado_tres_tickets) tid = Some tr
            \<and> agente_designado (obj_ticket estado_tres_tickets tr) = Some 0"
    by (simp add: estado_tres_tickets_def estado_inicial_def ticket_exemplo_def)
  show du: "duracoes mundo_microssegundos estado_tres_tickets 0
     [''t1'', ''t2'', ''t3'', ''t1'', ''t2'', ''t3'', ''t1'', ''t2''] = [0, 1, 1, 2, 2, 3, 3, 4]"
    by (simp add: estado_tres_tickets_def estado_inicial_def ticket_exemplo_def
          mundo_microssegundos_def mundo_exemplo_def)
  have a: "tempo_medio_resolucao (obj_agente estado_tres_tickets 0) = 0"
    "tickets_resolvidos (obj_agente estado_tres_tickets 0) = 0"
    by (simp_all add: estado_tres_tickets_def estado_inicial_def joao_def)
  show "map_sum fst (\<lambda>s'. (tempo_medio_resolucao (obj_agente s' 0), tickets_resolvidos (obj_agente s' 0)))
     (resolver_em_sequencia mundo_microssegundos
        [''t1'', ''t2'', ''t3'', ''t1'', ''t2'', ''t3'', ''t1'', ''t2''] estado_tres_tickets)
   = Inr (0, 8)"
    unfolding resolver_em_sequencia_medias [OF h] du a
    by (simp add: media_incremental_def td_mul_def td_add_def td_div_def td_novo_def td_min_def
          td_max_def divide_and_round_def Let_def)
qed

end
